theory Spec2Isabelle
  imports Main "HOL-Library.Multiset"
begin

section \<open>Data model of the decoded DeviceResponse\<close>

text \<open>
  The verifier works on the decoded DeviceResponse (class MDoc).  Byte strings are lists
  of numbers, dates are their millisecond time stamps (JavaScript compares Date objects
  through \<open>valueOf\<close>), and a COSE key is kept as its bytes.
\<close>

type_synonym bytes = "nat list"

type_synonym COSEKey = "nat list"

record ValidityInfo =
  signed :: int
  validFrom :: int
  validUntil :: int

text \<open>
  The view that the X.509 library gives of one DER certificate.  \<open>issuerName\<close> is the name
  object that \<open>verifyData\<close> tests for presence; \<open>countryName\<close> and \<open>stateOrProvince\<close> are
  the C and ST fields that the spec (section 3, Certificate) derives from it.
\<close>

record X509Certificate =
  subjectName :: string
  pem :: string
  notBefore :: int
  notAfter :: int
  serialNumber :: string
  thumbprint :: string
  issuerName :: "string option"
  countryName :: "string option"
  stateOrProvince :: "string option"

record DeviceKeyInfo =
  deviceKey :: "COSEKey option"

record MSO =
  digestAlgorithm :: string
  valueDigests :: "(string \<times> (nat \<times> bytes) list) list"
  deviceKeyInfo :: "DeviceKeyInfo option"
  validityInfo :: "ValidityInfo option"

record IssuerAuth =
  algName :: string
  x5chain :: "X509Certificate list option"
  payload :: bytes
  signature :: bytes
  decodedPayload :: MSO

text \<open>
  \<open>elementValue\<close> is any CBOR value.  The verifier only compares it with a text string and
  prints it in a template literal, so a value that is not a text string is kept as its
  printed form.
\<close>

datatype ElementValue = Text string | NonText string

record IssuerSignedItem =
  digestID :: nat
  elementIdentifier :: string
  elementValue :: ElementValue
  originalBytes :: bytes

record COSESign1 =
  sign1Alg :: string
  sign1Protected :: bytes
  sign1Signature :: bytes

record COSEMac0 =
  alg :: int
  macAlgName :: string
  macProtected :: bytes
  tag :: bytes

record DeviceAuth =
  deviceSignature :: "COSESign1 option"
  deviceMac :: "COSEMac0 option"

record DeviceSigned =
  nameSpaces :: "(string \<times> (string \<times> ElementValue) list) list"
  deviceAuth :: DeviceAuth

record IssuerSigned =
  nameSpaces :: "(string \<times> IssuerSignedItem list) list"
  issuerAuth :: IssuerAuth

text \<open>
  One class of the source stands for both kinds of document: an IssuerSignedDocument has
  no \<open>deviceSigned\<close> part, a DeviceSignedDocument (\<open>instanceof\<close> in the source) has one.
  \<open>issuerSigned\<close> is optional because \<open>addDocument\<close> tests it against \<open>undefined\<close>.
\<close>

record Document =
  docType :: string
  issuerSigned :: "IssuerSigned option"
  deviceSigned :: "DeviceSigned option"

datatype MDocStatus = OK | GeneralError | CBORDecodingError | CBORValidationError

record MDoc =
  documents :: "Document list"
  version :: string
  status :: MDocStatus
  documentErrors :: "(string \<times> nat) list"

section \<open>Errors\<close>

text \<open>
  MDLError is the class of errors.js; TypeError is what JavaScript throws when a property
  of \<open>undefined\<close> is read (it carries the name of the property); Error is the built-in
  class.
\<close>

datatype error = MDLError string | TypeError string | Error string

text \<open>
  \<open>err.message\<close>, which the \<open>catch\<close> blocks of the verifier read.
\<close>

fun message :: "error \<Rightarrow> string" where
  "message (MDLError m) = m"
| "message (TypeError property) =
     ''Cannot read properties of undefined (reading '' @ [CHR 0x27] @ property
       @ [CHR 0x27] @ '')''"
| "message (Error m) = m"

section \<open>MDoc.addDocument\<close>

text \<open>
  \<open>new MDoc()\<close> with the defaults of the constructor.
\<close>

definition MDoc_new :: MDoc where
  "MDoc_new = \<lparr>documents = [], version = ''1.0'', MDoc.status = OK, documentErrors = []\<rparr>"

text \<open>
  \<open>addDocument\<close> mutates \<open>this\<close>: the model returns the error thrown, if any, and the
  object after the call.
\<close>

definition addDocument :: "MDoc \<Rightarrow> Document \<Rightarrow> error option \<times> MDoc" where
  "addDocument this document =
     (if issuerSigned document = None
      then (Some (Error ''Cannot add an unsigned document''), this)
      else (None, this\<lparr>documents := documents this @ [document]\<rparr>))"

text \<open>
  A builder that calls \<open>addDocument\<close> for each document of a list, going on after a
  call that threw.
\<close>

fun addDocuments :: "MDoc \<Rightarrow> Document list \<Rightarrow> MDoc" where
  "addDocuments this [] = this"
| "addDocuments this (d # ds) = addDocuments (snd (addDocument this d)) ds"

section \<open>Assessments and callbacks (checkCallback)\<close>

datatype AssessmentStatus = PASSED | FAILED | WARNING

datatype Category = DOCUMENT_FORMAT | DEVICE_AUTH | ISSUER_AUTH | DATA_INTEGRITY

text \<open>
  \<open>Check\<close> is \<open>Omit<VerificationAssessment, 'category'>\<close>, the argument of the callbacks
  that \<open>onCatCheck\<close> builds; \<open>VerificationAssessment\<close> adds the category.
\<close>

record Check =
  status :: AssessmentStatus
  check :: string
  reason :: "string option"

record VerificationAssessment = Check +
  category :: Category

text \<open>
  A callback may throw and may change the state of its owner (the array that
  \<open>getDiagnosticInformation\<close> pushes to, say): it maps the state before the call to the
  error thrown, if any, and the state after the call.  The debug log line of
  \<open>defaultCallback\<close> is not part of the model.
\<close>

type_synonym 'st VerificationCallback =
  "VerificationAssessment \<Rightarrow> 'st \<Rightarrow> error option \<times> 'st"

type_synonym 'st UserDefinedVerificationCallback =
  "VerificationAssessment \<Rightarrow> 'st VerificationCallback \<Rightarrow> 'st \<Rightarrow> error option \<times> 'st"

definition defaultCallback :: "'st VerificationCallback" where
  "defaultCallback verification st =
     (if status verification \<noteq> FAILED then (None, st)
      else (Some (MDLError (case reason verification of
                              Some r \<Rightarrow> r
                            | None \<Rightarrow> check verification)), st))"

definition buildCallback ::
  "'st UserDefinedVerificationCallback option \<Rightarrow> 'st VerificationCallback" where
  "buildCallback callback =
     (case callback of
        None \<Rightarrow> defaultCallback
      | Some cb \<Rightarrow> (\<lambda>item. cb item defaultCallback))"

definition onCatCheck ::
  "'st UserDefinedVerificationCallback \<Rightarrow> Category \<Rightarrow> Check \<Rightarrow> 'st \<Rightarrow> error option \<times> 'st" where
  "onCatCheck onCheck cat item =
     onCheck \<lparr>status = status item, check = check item, reason = reason item,
              category = cat\<rparr> defaultCallback"

text \<open>
  The verifier hands the callback that \<open>buildCallback\<close> returned to \<open>onCatCheck\<close>, which
  calls it with two arguments; a JavaScript function of one parameter ignores the second.
\<close>

definition withOriginal :: "'st VerificationCallback \<Rightarrow> 'st UserDefinedVerificationCallback" where
  "withOriginal cb = (\<lambda>item original. cb item)"

text \<open>
  The callback of \<open>getDiagnosticInformation\<close>: \<open>(check) => dr.push(check)\<close>.
\<close>

definition collect :: "(VerificationAssessment list) UserDefinedVerificationCallback" where
  "collect item original dr = (None, dr @ [item])"

section \<open>Running a sequence of checks\<close>

text \<open>
  No branch of the verifier depends on what a callback returns, so each method is written
  as the sequence of its \<open>onCheck\<close> calls and of the exceptions its own code throws, in
  program order.  \<open>Emit a\<close> is a call \<open>onCheck(a)\<close> outside any \<open>try\<close>: what the callback
  throws leaves the method.  \<open>Attempt a handler\<close> is a call \<open>onCheck(a)\<close> that is the last
  statement of a \<open>try\<close> block whose \<open>catch (err)\<close> calls \<open>onCheck(handler(err.message))\<close>:
  what the callback throws for \<open>a\<close> is caught, the callback is called again with the
  assessment of the \<open>catch\<close> block, and only what it throws then leaves the method.
  \<open>Raise e\<close> is an exception of the method's own code.  \<open>deliver\<close> runs such a sequence
  and stops at the first exception that leaves the method.
\<close>

datatype 'a event = Emit 'a | Attempt 'a "string \<Rightarrow> 'a" | Raise error

fun deliver :: "('a \<Rightarrow> 'st \<Rightarrow> error option \<times> 'st) \<Rightarrow> 'a event list \<Rightarrow> 'st \<Rightarrow> error option \<times> 'st" where
  "deliver cb [] st = (None, st)"
| "deliver cb (Emit a # es) st =
     (case cb a st of
        (Some e, st') \<Rightarrow> (Some e, st')
      | (None, st') \<Rightarrow> deliver cb es st')"
| "deliver cb (Attempt a handler # es) st =
     (case cb a st of
        (Some e, st') \<Rightarrow>
          (case cb (handler (message e)) st' of
             (Some e', st'') \<Rightarrow> (Some e', st'')
           | (None, st'') \<Rightarrow> deliver cb es st'')
      | (None, st') \<Rightarrow> deliver cb es st')"
| "deliver cb (Raise e # es) st = (Some e, st)"

text \<open>
  \<open>await f(); g()\<close>: \<open>g\<close> runs only when \<open>f\<close> did not throw.
\<close>

definition andThen :: "error option \<times> 'st \<Rightarrow> ('st \<Rightarrow> error option \<times> 'st) \<Rightarrow> error option \<times> 'st" where
  "andThen r f = (case r of (Some e, st) \<Rightarrow> (Some e, st) | (None, st) \<Rightarrow> f st)"

section \<open>What the verifier takes from its libraries\<close>

text \<open>
  The clock, the X.509 and COSE libraries and the helpers of utils are parameters of the
  model.  A call inside \<open>try\<close> returns the message of the error it threw (\<open>Inl\<close>) or its
  result.  Of the calls outside \<open>try\<close>, \<open>compareVersions\<close> and \<open>importCOSEKey\<close> return
  the error they threw (\<open>Inl\<close>) or their result; the others are taken to return.
  \<^item> \<open>now\<close>: \<open>new Date()\<close>; \<open>toUTCString\<close>: the method of Date.
  \<^item> \<open>compareVersions\<close>: the function of the package compare-versions, which throws
    for a text that is no version.
  \<^item> \<open>importX509\<close>: jose, from the PEM text and the algorithm name to a key.
  \<^item> \<open>x509PathError\<close>: the path validation of section 4.C of the spec, \<open>None\<close> when the
    chain is valid; \<open>missingChainMessage\<close>: the message of the error for an absent leaf.
  \<^item> \<open>sign1Verify\<close>: \<open>issuerAuth.verify(verificationKey)\<close>.
  \<^item> \<open>digest\<close>: the hash function named by the digest algorithm.
  \<^item> \<open>importCOSEKey\<close>: cose-kit, from the device key of the MSO to a key.
  \<^item> \<open>deviceSignatureVerify\<close>: \<open>Sign1.verify\<close> on the imported device key, the device
    signature and the DeviceAuthenticationBytes.
  \<^item> \<open>deviceMacVerify\<close>: \<open>calculateEphemeralMacKey\<close> and \<open>deviceMac.verify\<close>.
  \<^item> \<open>COSEKeyToJWK\<close>: cose-kit.
\<close>

record env =
  now :: int
  toUTCString :: "int \<Rightarrow> string"
  compareVersions :: "string \<Rightarrow> string \<Rightarrow> error + int"
  importX509 :: "string \<Rightarrow> string \<Rightarrow> COSEKey"
  x509PathError :: "X509Certificate list \<Rightarrow> string list \<Rightarrow> string option"
  missingChainMessage :: string
  sign1Verify :: "IssuerAuth \<Rightarrow> COSEKey \<Rightarrow> bool"
  digest :: "string \<Rightarrow> bytes \<Rightarrow> bytes"
  calculateDeviceAutenticationBytes ::
    "bytes \<Rightarrow> string \<Rightarrow> (string \<times> (string \<times> ElementValue) list) list \<Rightarrow> bytes"
  importCOSEKey :: "COSEKey \<Rightarrow> error + COSEKey"
  deviceSignatureVerify :: "COSEKey \<Rightarrow> COSESign1 \<Rightarrow> bytes \<Rightarrow> string + bool"
  deviceMacVerify :: "COSEKey \<Rightarrow> COSEKey \<Rightarrow> bytes \<Rightarrow> COSEMac0 \<Rightarrow> bytes \<Rightarrow> string + bool"
  COSEKeyToJWK :: "COSEKey \<Rightarrow> string"

record Verifier =
  issuersRootCertificates :: "string list"

section \<open>The parts of IssuerAuth, IssuerSignedItem and COSEMac0 that the verifier calls\<close>

text \<open>
  Modelled from the spec: the getter \<open>IssuerAuth.certificate\<close> is not among the sources.
  Section 4.G: the leaf certificate is extracted from \<open>x5chain\<close> and may be absent.
\<close>

definition certificate :: "IssuerAuth \<Rightarrow> X509Certificate option" where
  "certificate ia = (case x5chain ia of Some (c # cs) \<Rightarrow> Some c | _ \<Rightarrow> None)"

text \<open>
  Modelled from the spec: the getters \<open>IssuerAuth.countryName\<close> and
  \<open>IssuerAuth.stateOrProvince\<close> are not among the sources.  Section 3: they are derived
  from the certificate.
\<close>

definition IssuerAuth_countryName :: "IssuerAuth \<Rightarrow> string option" where
  "IssuerAuth_countryName ia =
     (case certificate ia of None \<Rightarrow> None | Some c \<Rightarrow> countryName c)"

definition IssuerAuth_stateOrProvince :: "IssuerAuth \<Rightarrow> string option" where
  "IssuerAuth_stateOrProvince ia =
     (case certificate ia of None \<Rightarrow> None | Some c \<Rightarrow> stateOrProvince c)"

text \<open>
  Modelled from the spec: \<open>IssuerAuth.verifyX509Chain\<close> is not among the sources.
  Section 4.G: an absent leaf certificate is an error; otherwise the chain goes through
  the path validation of section 4.C.  The result is the message of the error thrown,
  \<open>None\<close> when the method returns.
\<close>

definition verifyX509Chain :: "env \<Rightarrow> IssuerAuth \<Rightarrow> string list \<Rightarrow> string option" where
  "verifyX509Chain E ia roots =
     (case x5chain ia of
        Some (c # cs) \<Rightarrow> x509PathError E (c # cs) roots
      | _ \<Rightarrow> Some (missingChainMessage E))"

text \<open>
  Modelled from the spec: \<open>IssuerSignedItem.isValid\<close> is not among the sources.
  Section 4.D, steps 1 and 2: the digest of the original encoded bytes under the digest
  algorithm of the MSO must equal \<open>valueDigests[ns][digestID]\<close>.
\<close>

definition isValid :: "env \<Rightarrow> IssuerSignedItem \<Rightarrow> string \<Rightarrow> IssuerAuth \<Rightarrow> bool" where
  "isValid E ev ns ia =
     (case map_of (valueDigests (decodedPayload ia)) ns of
        None \<Rightarrow> False
      | Some digests \<Rightarrow>
          (case map_of digests (digestID ev) of
             None \<Rightarrow> False
           | Some d \<Rightarrow>
               digest E (digestAlgorithm (decodedPayload ia)) (originalBytes ev) = d))"

definition MDL_NAMESPACE :: string where
  "MDL_NAMESPACE = ''org.iso.18013.5.1''"

text \<open>
  JavaScript truthiness of an optional string: \<open>undefined\<close> and the empty string are falsy.
\<close>

definition truthy :: "string option \<Rightarrow> bool" where
  "truthy s = (case s of None \<Rightarrow> False | Some t \<Rightarrow> t \<noteq> [])"

text \<open>
  Modelled from the spec: \<open>IssuerSignedItem.matchCertificate\<close> is not among the sources.
  Section 4.D, step 3: in the mDL namespace \<open>issuing_country\<close> must equal the country
  name of the certificate, and \<open>issuing_jurisdiction\<close> its state or province when the
  certificate has one.  The source only tests the result for truthiness.
\<close>

definition matchCertificate :: "IssuerSignedItem \<Rightarrow> string \<Rightarrow> IssuerAuth \<Rightarrow> bool" where
  "matchCertificate ev ns ia =
     (if ns \<noteq> MDL_NAMESPACE then False
      else if elementIdentifier ev = ''issuing_country''
        then (case IssuerAuth_countryName ia of
                None \<Rightarrow> False
              | Some c \<Rightarrow> elementValue ev = Text c)
      else if elementIdentifier ev = ''issuing_jurisdiction''
              \<and> truthy (IssuerAuth_stateOrProvince ia)
        then (case IssuerAuth_stateOrProvince ia of
                None \<Rightarrow> False
              | Some s \<Rightarrow> elementValue ev = Text s)
      else False)"

text \<open>
  Modelled from the spec: \<open>hasSupportedAlg\<close> of the COSE_Mac0 class is not among the
  sources.  Section 3 (CoseMac0) and section 4.G: the supported algorithm is 5.
\<close>

definition hasSupportedAlg :: "COSEMac0 \<Rightarrow> bool" where
  "hasSupportedAlg m = (alg m = 5)"

section \<open>Verifier.verifyIssuerSignature\<close>

text \<open>
  The \<open>onCheck\<close> call for a valid chain stands inside the \<open>try\<close> block of the chain
  validation.  The object literal of the third \<open>onCheck\<close> call builds its \<open>reason\<close> from
  \<open>validityInfo.signed\<close> and \<open>certificate.notBefore\<close> before the call: when one of the two
  objects is \<open>undefined\<close> the method throws a TypeError there.
\<close>

definition verifyIssuerSignature_events ::
  "Verifier \<Rightarrow> env \<Rightarrow> IssuerAuth \<Rightarrow> bool \<Rightarrow> Check event list" where
  "verifyIssuerSignature_events V E ia disableCertificateChainValidation =
     (let cert = certificate ia;
          verificationKey =
            (case cert of
               Some c \<Rightarrow> Some (importX509 E (pem c) (algName ia))
             | None \<Rightarrow> None);
          chain =
            (if \<not> disableCertificateChainValidation
             then (case verifyX509Chain E ia (issuersRootCertificates V) of
                     None \<Rightarrow>
                       [Attempt \<lparr>status = PASSED,
                                 check = ''Issuer certificate must be valid'',
                                 reason = None\<rparr>
                          (\<lambda>thrown. \<lparr>status = FAILED,
                                      check = ''Issuer certificate must be valid'',
                                      reason = Some thrown\<rparr>)]
                   | Some thrown \<Rightarrow>
                       [Emit \<lparr>status = FAILED,
                              check = ''Issuer certificate must be valid'',
                              reason = Some thrown\<rparr>])
             else []);
          verificationResult =
            (case verificationKey of
               Some k \<Rightarrow> sign1Verify E ia k
             | None \<Rightarrow> False)
      in chain @
         [Emit \<lparr>status = (if verificationResult then PASSED else FAILED),
                check = ''Issuer signature must be valid'',
                reason = None\<rparr>] @
         (case validityInfo (decodedPayload ia) of
            None \<Rightarrow> [Raise (TypeError ''signed'')]
          | Some vi \<Rightarrow>
              (case cert of
                 None \<Rightarrow> [Raise (TypeError ''notBefore'')]
               | Some c \<Rightarrow>
                   [Emit \<lparr>status = (if signed vi < notBefore c \<or> signed vi > notAfter c
                                    then FAILED else PASSED),
                          check = ''The MSO signed date must be within the validity period of the certificate'',
                          reason = Some (''The MSO signed date ('' @ toUTCString E (signed vi)
                            @ '') must be within the validity period of the certificate (''
                            @ toUTCString E (notBefore c) @ '' to ''
                            @ toUTCString E (notAfter c) @ '')'')\<rparr>,
                    Emit \<lparr>status = (if now E < validFrom vi \<or> now E > validUntil vi
                                    then FAILED else PASSED),
                          check = ''The MSO must be valid at the time of verification'',
                          reason = Some (''The MSO must be valid at the time of verification (''
                            @ toUTCString E (now E) @ '')'')\<rparr>,
                    Emit \<lparr>status = (if truthy (IssuerAuth_countryName ia) then PASSED else FAILED),
                          check = ''Country name (C) must be present in the issuer certificate's subject distinguished name'',
                          reason = None\<rparr>])))"

definition verifyIssuerSignature ::
  "Verifier \<Rightarrow> env \<Rightarrow> IssuerAuth \<Rightarrow> bool \<Rightarrow> 'st VerificationCallback
     \<Rightarrow> 'st \<Rightarrow> error option \<times> 'st" where
  "verifyIssuerSignature V E ia disableCertificateChainValidation onCheckG =
     deliver (onCatCheck (withOriginal onCheckG) ISSUER_AUTH)
       (verifyIssuerSignature_events V E ia disableCertificateChainValidation)"

section \<open>Verifier.verifyDeviceSignature\<close>

text \<open>
  \<open>importCOSEKey\<close> is called before the \<open>try\<close> block of the signature branch: its error
  leaves the method.  In both \<open>try\<close> blocks the \<open>onCheck\<close> call on the result of the
  verification is the last statement of the block, so that the \<open>catch\<close> block also
  receives what the callback throws.
\<close>

record 'st DeviceVerifyOptions =
  ephemeralPrivateKey :: "COSEKey option"
  sessionTranscriptBytes :: "bytes option"
  onCheck :: "'st VerificationCallback"

definition verifyDeviceSignature_events ::
  "env \<Rightarrow> Document \<Rightarrow> COSEKey option \<Rightarrow> bytes option \<Rightarrow> Check event list" where
  "verifyDeviceSignature_events E document ephemeralKey transcript =
     (case deviceSigned document of
        None \<Rightarrow>
          [Emit \<lparr>status = FAILED,
                 check = ''The document is not signed by the device.'',
                 reason = None\<rparr>]
      | Some ds \<Rightarrow>
     (case issuerSigned document of
        None \<Rightarrow> [Raise (TypeError ''issuerAuth'')]
      | Some isd \<Rightarrow>
     (let deviceKeyCoseKey =
            (case deviceKeyInfo (decodedPayload (issuerAuth isd)) of
               None \<Rightarrow> None
             | Some info \<Rightarrow> deviceKey info)
      in
      if deviceMac (deviceAuth ds) = None \<and> deviceSignature (deviceAuth ds) = None
      then [Emit \<lparr>status = FAILED,
                  check = ''Device Auth must contain a deviceSignature or deviceMac element'',
                  reason = None\<rparr>]
      else
     (case transcript of
        None \<Rightarrow>
          [Emit \<lparr>status = FAILED,
                 check = ''Session Transcript Bytes missing from options, aborting device signature check'',
                 reason = None\<rparr>]
      | Some stb \<Rightarrow>
     (let deviceAuthenticationBytes =
            calculateDeviceAutenticationBytes E stb (docType document)
              (DeviceSigned.nameSpaces ds)
      in
      case deviceKeyCoseKey of
        None \<Rightarrow>
          [Emit \<lparr>status = FAILED,
                 check = ''Issuer signature must contain the device key.'',
                 reason = Some ''Unable to verify deviceAuth signature: missing device key in issuerAuth''\<rparr>]
      | Some dk \<Rightarrow>
     (case deviceSignature (deviceAuth ds) of
        Some sg \<Rightarrow>
          (case importCOSEKey E dk of
             Inl e \<Rightarrow> [Raise e]
           | Inr imported \<Rightarrow>
          (case deviceSignatureVerify E imported sg deviceAuthenticationBytes of
             Inr verificationResult \<Rightarrow>
               [Attempt \<lparr>status = (if verificationResult then PASSED else FAILED),
                         check = ''Device signature must be valid'',
                         reason = None\<rparr>
                  (\<lambda>thrown.
                     \<lparr>status = FAILED,
                      check = ''Device signature must be valid'',
                      reason = Some (''Unable to verify deviceAuth signature (ECDSA/EdDSA): ''
                                     @ thrown)\<rparr>)]
           | Inl thrown \<Rightarrow>
               [Emit \<lparr>status = FAILED,
                      check = ''Device signature must be valid'',
                      reason = Some (''Unable to verify deviceAuth signature (ECDSA/EdDSA): ''
                                     @ thrown)\<rparr>]))
      | None \<Rightarrow>
     (case deviceMac (deviceAuth ds) of
        None \<Rightarrow>
          [Emit \<lparr>status = FAILED,
                 check = ''Device MAC must be present when using MAC authentication'',
                 reason = None\<rparr>]
      | Some mac \<Rightarrow>
          Emit \<lparr>status = PASSED,
                check = ''Device MAC must be present when using MAC authentication'',
                reason = None\<rparr> #
          (if \<not> hasSupportedAlg mac
           then [Emit \<lparr>status = FAILED,
                       check = ''Device MAC must use alg 5 (HMAC 256/256)'',
                       reason = None\<rparr>]
           else
             Emit \<lparr>status = PASSED,
                   check = ''Device MAC must use alg 5 (HMAC 256/256)'',
                   reason = None\<rparr> #
             (case ephemeralKey of
                None \<Rightarrow>
                  [Emit \<lparr>status = FAILED,
                         check = ''Ephemeral private key must be present when using MAC authentication'',
                         reason = None\<rparr>]
              | Some ek \<Rightarrow>
                  [Emit \<lparr>status = PASSED,
                         check = ''Ephemeral private key must be present when using MAC authentication'',
                         reason = None\<rparr>,
                   (case deviceMacVerify E ek dk stb mac deviceAuthenticationBytes of
                      Inr ok \<Rightarrow>
                        Attempt \<lparr>status = (if ok then PASSED else FAILED),
                                 check = ''Device MAC must be valid'',
                                 reason = None\<rparr>
                          (\<lambda>thrown.
                             \<lparr>status = FAILED,
                              check = ''Device MAC must be valid'',
                              reason = Some (''Unable to verify deviceAuth MAC: ''
                                             @ thrown)\<rparr>)
                    | Inl thrown \<Rightarrow>
                        Emit \<lparr>status = FAILED,
                              check = ''Device MAC must be valid'',
                              reason = Some (''Unable to verify deviceAuth MAC: ''
                                             @ thrown)\<rparr>)])))))))))"

definition verifyDeviceSignature ::
  "env \<Rightarrow> Document \<Rightarrow> 'st DeviceVerifyOptions \<Rightarrow> 'st \<Rightarrow> error option \<times> 'st" where
  "verifyDeviceSignature E document options =
     deliver (onCatCheck (withOriginal (onCheck options)) DEVICE_AUTH)
       (verifyDeviceSignature_events E document
          (ephemeralPrivateKey options) (sessionTranscriptBytes options))"

section \<open>Verifier.verifyData\<close>

text \<open>
  \<open>DIGEST_ALGS[digestAlgorithm]\<close> reads a property of an object literal: besides its three
  own keys it finds the properties that every object inherits from \<open>Object.prototype\<close>.
\<close>

definition DIGEST_ALGS :: "(string \<times> string) list" where
  "DIGEST_ALGS = [(''SHA-256'', ''sha256''), (''SHA-384'', ''sha384''), (''SHA-512'', ''sha512'')]"

definition Object_prototype_keys :: "string list" where
  "Object_prototype_keys =
     [''constructor'', ''__proto__'', ''hasOwnProperty'', ''isPrototypeOf'',
      ''propertyIsEnumerable'', ''toLocaleString'', ''toString'', ''valueOf'',
      ''__defineGetter__'', ''__defineSetter__'', ''__lookupGetter__'', ''__lookupSetter__'']"

definition supportedDigestAlgorithm :: "string \<Rightarrow> bool" where
  "supportedDigestAlgorithm a =
     (a \<noteq> [] \<and> (a \<in> set (map fst DIGEST_ALGS) \<or> a \<in> set Object_prototype_keys))"

text \<open>
  A value in a template literal, and an optional string there.
\<close>

definition toString :: "ElementValue \<Rightarrow> string" where
  "toString v = (case v of Text s \<Rightarrow> s | NonText s \<Rightarrow> s)"

definition interpolate :: "string option \<Rightarrow> string" where
  "interpolate s = (case s of None \<Rightarrow> ''undefined'' | Some t \<Rightarrow> t)"

definition digestCheck :: "string \<Rightarrow> string \<Rightarrow> string" where
  "digestCheck ns identifier =
     ''The calculated digest for '' @ ns @ ''/'' @ identifier
       @ '' attribute must match the digest in the issuerAuth element''"

definition countryCheck :: string where
  "countryCheck = ''The 'issuing_country' if present must match the 'countryName' in the subject field within the DS certificate''"

definition jurisdictionCheck :: string where
  "jurisdictionCheck = ''The 'issuing_jurisdiction' if present must match the 'stateOrProvinceName' in the subject field within the DS certificate''"

definition countryReason :: "string \<Rightarrow> string \<Rightarrow> string" where
  "countryReason disclosed name =
     ''The 'issuing_country' ('' @ disclosed @ '') must match the 'countryName' ('' @ name
       @ '') in the subject field within the issuer certificate''"

definition jurisdictionReason :: "string \<Rightarrow> string \<Rightarrow> string" where
  "jurisdictionReason disclosed name =
     ''The 'issuing_jurisdiction' ('' @ disclosed @ '') must match the 'stateOrProvinceName' (''
       @ name @ '') in the subject field within the issuer certificate''"

text \<open>
  The argument of the first \<open>onCheck\<close> call of \<open>verifyData\<close>, and the one of the first
  call for a namespace (\<open>valueDigests.has(ns)\<close>).
\<close>

definition digestAlgorithmCheck :: "MSO \<Rightarrow> Check" where
  "digestAlgorithmCheck mso =
     \<lparr>status = (if supportedDigestAlgorithm (digestAlgorithm mso) then PASSED else FAILED),
      check = ''Issuer Auth must include a supported digestAlgorithm element'',
      reason = None\<rparr>"

definition namespaceCheck :: "MSO \<Rightarrow> string \<Rightarrow> Check" where
  "namespaceCheck mso ns =
     \<lparr>status = (if ns \<in> set (map fst (valueDigests mso)) then PASSED else FAILED),
      check = ''Issuer Auth must include digests for namespace: '' @ ns,
      reason = None\<rparr>"

text \<open>
  The callback that \<open>verifyData\<close> maps over the namespaces is asynchronous.  Its first
  \<open>onCheck\<close> call (the digests of the namespace must exist) runs at once, inside
  \<open>map\<close>; what follows the first \<open>await\<close> runs later.  \<open>verifyData_namespace\<close> is that
  later part for one namespace: \<open>verifications\<close> holds the triples \<open>{ev, ns, isValid}\<close>.
  \<open>invalidCountry\<close> and \<open>invalidJurisdiction\<close> are the constants of that name, and
  \<open>certificateChecks\<close> is the block under \<open>if (ns === MDL_NAMESPACE)\<close>.
\<close>

type_synonym verification = "IssuerSignedItem \<times> string \<times> bool"

definition invalidCountry :: "IssuerAuth \<Rightarrow> string \<Rightarrow> verification list \<Rightarrow> verification option" where
  "invalidCountry ia ns verifications =
     find (\<lambda>(ev, n, ok). \<not> ok \<or> \<not> matchCertificate ev ns ia)
       (filter (\<lambda>(ev, n, ok). n = ns \<and> elementIdentifier ev = ''issuing_country'')
          verifications)"

definition invalidJurisdiction :: "IssuerAuth \<Rightarrow> string \<Rightarrow> verification list \<Rightarrow> verification option" where
  "invalidJurisdiction ia ns verifications =
     find (\<lambda>(ev, n, ok). \<not> ok \<or>
             (truthy (IssuerAuth_stateOrProvince ia) \<and> \<not> matchCertificate ev ns ia))
       (filter (\<lambda>(ev, n, ok). n = ns \<and> elementIdentifier ev = ''issuing_jurisdiction'')
          verifications)"

definition certificateChecks :: "IssuerAuth \<Rightarrow> string \<Rightarrow> verification list \<Rightarrow> Check event list" where
  "certificateChecks ia ns verifications =
     (case certificate ia of
        None \<Rightarrow> [Raise (TypeError ''issuerName'')]
      | Some c \<Rightarrow>
     (if \<not> truthy (issuerName c)
      then
          [Emit \<lparr>status = FAILED,
                 check = countryCheck,
                 reason = Some ''The 'issuing_country' and 'issuing_jurisdiction' cannot be verified because the DS certificate was not provided''\<rparr>]
      else
          [Emit \<lparr>status = (if invalidCountry ia ns verifications \<noteq> None then FAILED else PASSED),
                 check = countryCheck,
                 reason =
                   (case invalidCountry ia ns verifications of
                      Some (ev, n, ok) \<Rightarrow>
                        Some (countryReason (toString (elementValue ev))
                                (interpolate (IssuerAuth_countryName ia)))
                    | None \<Rightarrow> None)\<rparr>,
           Emit \<lparr>status = (if invalidJurisdiction ia ns verifications \<noteq> None
                            then FAILED else PASSED),
                 check = jurisdictionCheck,
                 reason =
                   (case invalidJurisdiction ia ns verifications of
                      Some (ev, n, ok) \<Rightarrow>
                        Some (jurisdictionReason (toString (elementValue ev))
                                (interpolate (IssuerAuth_stateOrProvince ia)))
                    | None \<Rightarrow> None)\<rparr>]))"

definition verifyData_namespace ::
  "env \<Rightarrow> IssuerAuth \<Rightarrow> string \<Rightarrow> IssuerSignedItem list \<Rightarrow> Check event list" where
  "verifyData_namespace E ia ns items =
     (let verifications = map (\<lambda>ev. (ev, ns, isValid E ev ns ia)) items
      in
        map (\<lambda>(ev, n, ok).
               Emit \<lparr>status = PASSED,
                     check = digestCheck ns (elementIdentifier ev),
                     reason = None\<rparr>)
          (filter (\<lambda>(ev, n, ok). ok) verifications)
        @
        map (\<lambda>(ev, n, ok).
               Emit \<lparr>status = FAILED,
                     check = digestCheck ns (elementIdentifier ev),
                     reason = None\<rparr>)
          (filter (\<lambda>(ev, n, ok). \<not> ok) verifications)
        @
        (if ns = MDL_NAMESPACE then certificateChecks ia ns verifications else []))"

text \<open>
  \<open>Promise.all\<close> over asynchronous callbacks: every task runs, also after another task
  threw, and the promise is rejected with the error that was thrown first.  \<open>run_each\<close>
  runs the given parts of the tasks one after the other and keeps what each of them threw.
\<close>

fun run_each ::
  "('a \<Rightarrow> 'st \<Rightarrow> error option \<times> 'st) \<Rightarrow> 'a event list list \<Rightarrow> 'st
     \<Rightarrow> error option list \<times> 'st" where
  "run_each cb [] st = ([], st)"
| "run_each cb (t # ts) st =
     (case deliver cb t st of
        (r, st') \<Rightarrow>
          (case run_each cb ts st' of
             (rs, st'') \<Rightarrow> (r # rs, st'')))"

definition first_error :: "error option list \<Rightarrow> error option" where
  "first_error rs = (case find (\<lambda>r. r \<noteq> None) rs of None \<Rightarrow> None | Some r \<Rightarrow> r)"

text \<open>
  \<open>verifyData\<close> first reports on the digest algorithm.  Then \<open>map\<close> starts one task for
  each namespace, in the order of the keys: the first check of each task is delivered
  there (\<open>started\<close>), and a task whose callback threw is over.  The other tasks go on
  after their \<open>await\<close> (\<open>finished\<close>); the model takes them to be resumed in the order in
  which they were started.  The state returned is the one reached when every task is
  over.
\<close>

definition verifyData ::
  "env \<Rightarrow> Document \<Rightarrow> 'st VerificationCallback \<Rightarrow> 'st \<Rightarrow> error option \<times> 'st" where
  "verifyData E mdoc onCheckG st =
     (case issuerSigned mdoc of
        None \<Rightarrow> (Some (TypeError ''issuerAuth''), st)
      | Some isd \<Rightarrow>
     (let ia = issuerAuth isd;
          onCheck = onCatCheck (withOriginal onCheckG) DATA_INTEGRITY
      in
        andThen
          (deliver onCheck
             [Emit (digestAlgorithmCheck (decodedPayload ia))] st)
          (\<lambda>st0.
             case run_each onCheck
                    (map (\<lambda>(ns, items).
                            [Emit (namespaceCheck (decodedPayload ia) ns)])
                       (IssuerSigned.nameSpaces isd)) st0 of
               (started, st1) \<Rightarrow>
             case run_each onCheck
                    (map (\<lambda>((ns, items), r). verifyData_namespace E ia ns items)
                       (filter (\<lambda>(task, r). r = None)
                          (zip (IssuerSigned.nameSpaces isd) started))) st1 of
               (finished, st2) \<Rightarrow> (first_error (started @ finished), st2))))"

section \<open>Verifier.verify\<close>

text \<open>
  The options of \<open>verify\<close>.  An option left out is \<open>None\<close>;
  \<open>disableCertificateChainValidation\<close> left out is falsy.  The model starts from the
  decoded DeviceResponse: \<open>parse\<close> is not among the sources.
\<close>

record 'st VerifyOptions =
  encodedSessionTranscript :: "bytes option"
  ephemeralReaderKey :: "COSEKey option"
  disableCertificateChainValidation :: bool
  onCheck :: "'st UserDefinedVerificationCallback option"

text \<open>
  The three checks on the format of the response.  The object literal of the second one
  calls \<open>compareVersions\<close>, which may throw.
\<close>

definition verify_format_events :: "env \<Rightarrow> MDoc \<Rightarrow> VerificationAssessment event list" where
  "verify_format_events E dr =
     Emit \<lparr>status = (if version dr \<noteq> [] then PASSED else FAILED),
           check = ''Device Response must include \"version\" element.'',
           reason = None,
           category = DOCUMENT_FORMAT\<rparr> #
     (case compareVersions E (version dr) ''1.0'' of
        Inl e \<Rightarrow> [Raise e]
      | Inr order \<Rightarrow>
          [Emit \<lparr>status = (if order \<ge> 0 then PASSED else FAILED),
                 check = ''Device Response version must be 1.0 or greater'',
                 reason = None,
                 category = DOCUMENT_FORMAT\<rparr>,
           Emit \<lparr>status = (if length (documents dr) > 0 then PASSED else FAILED),
                 check = ''Device Response must include at least one document.'',
                 reason = None,
                 category = DOCUMENT_FORMAT\<rparr>])"

text \<open>
  The body of the loop over the documents.
\<close>

definition verify_document ::
  "Verifier \<Rightarrow> env \<Rightarrow> 'st VerifyOptions \<Rightarrow> 'st VerificationCallback \<Rightarrow> Document
     \<Rightarrow> 'st \<Rightarrow> error option \<times> 'st" where
  "verify_document V E options cb document st =
     (case issuerSigned document of
        None \<Rightarrow> (Some (TypeError ''issuerAuth''), st)
      | Some isd \<Rightarrow>
          andThen
            (verifyIssuerSignature V E (issuerAuth isd)
               (disableCertificateChainValidation options) cb st)
            (\<lambda>st1.
               andThen
                 (verifyDeviceSignature E document
                    \<lparr>ephemeralPrivateKey = ephemeralReaderKey options,
                     sessionTranscriptBytes = encodedSessionTranscript options,
                     DeviceVerifyOptions.onCheck = cb\<rparr> st1)
                 (verifyData E document cb)))"

fun verify_documents ::
  "Verifier \<Rightarrow> env \<Rightarrow> 'st VerifyOptions \<Rightarrow> 'st VerificationCallback \<Rightarrow> Document list
     \<Rightarrow> 'st \<Rightarrow> error option \<times> 'st" where
  "verify_documents V E options cb [] st = (None, st)"
| "verify_documents V E options cb (document # rest) st =
     andThen (verify_document V E options cb document st)
       (verify_documents V E options cb rest)"

definition verify ::
  "Verifier \<Rightarrow> env \<Rightarrow> MDoc \<Rightarrow> 'st VerifyOptions \<Rightarrow> 'st \<Rightarrow> error option \<times> 'st" where
  "verify V E dr options st =
     (let cb = buildCallback (onCheck options)
      in andThen (deliver cb (verify_format_events E dr) st)
           (verify_documents V E options cb (documents dr)))"

section \<open>Verifier.getDiagnosticInformation\<close>

text \<open>
  The report.  Its fields carry the name of the object they belong to as a prefix, since
  several of them (\<open>alg\<close>, \<open>isValid\<close>, \<open>validityInfo\<close>, \<open>deviceKey\<close>) are names of the data
  model too.  \<open>general_type\<close> is the constant text \<open>DeviceResponse\<close>, and
  \<open>dataIntegrity_disclosedAttributes\<close> holds the two numbers of the text \<open>k of n\<close>.
\<close>

record General =
  general_version :: string
  general_type :: string
  general_status :: MDocStatus
  general_documents :: nat

record IssuerCertificateReport =
  issuerCertificate_subjectName :: string
  issuerCertificate_pem :: string
  issuerCertificate_notBefore :: int
  issuerCertificate_notAfter :: int
  issuerCertificate_serialNumber :: string
  issuerCertificate_thumbprint :: string

record IssuerSignatureReport =
  issuerSignature_alg :: string
  issuerSignature_isValid :: bool
  issuerSignature_reasons :: "string list"
  issuerSignature_digests :: "(string \<times> nat) list"

record DeviceSignatureReport =
  deviceSignature_alg :: "string option"
  deviceSignature_isValid :: bool
  deviceSignature_reasons :: "string list"

record DataIntegrityReport =
  dataIntegrity_disclosedAttributes :: "nat \<times> nat"
  dataIntegrity_isValid :: bool
  dataIntegrity_reasons :: "string list"

record AttributeReport =
  attribute_ns :: string
  attribute_id :: string
  attribute_elementValue :: ElementValue
  attribute_isValid :: bool
  attribute_matchCertificate :: bool

record DeviceAttributeReport =
  deviceAttribute_ns :: string
  deviceAttribute_id :: string
  deviceAttribute_elementValue :: ElementValue

record DiagnosticInformation =
  report_general :: General
  report_validityInfo :: "ValidityInfo option"
  report_issuerCertificate :: "IssuerCertificateReport option"
  report_issuerSignature :: IssuerSignatureReport
  report_deviceKey :: "string option"
  report_deviceSignature :: "DeviceSignatureReport option"
  report_dataIntegrity :: DataIntegrityReport
  report_attributes :: "AttributeReport list"
  report_deviceAttributes :: "DeviceAttributeReport list option"

text \<open>
  \<open>check.reason ?? check.check\<close>.
\<close>

definition reasonOrCheck :: "VerificationAssessment \<Rightarrow> string" where
  "reasonOrCheck c = (case reason c of Some r \<Rightarrow> r | None \<Rightarrow> check c)"

text \<open>
  The object that \<open>getDiagnosticInformation\<close> returns, from the decoded response, its
  first document (\<open>decoded.documents[0]\<close>), the issuer-signed part of that document and
  the assessments \<open>dr\<close> that the callback collected.
\<close>

definition diagnosticReport ::
  "env \<Rightarrow> MDoc \<Rightarrow> Document \<Rightarrow> IssuerSigned \<Rightarrow> VerificationAssessment list
     \<Rightarrow> DiagnosticInformation" where
  "diagnosticReport E decoded document isd dr =
     (let ia = issuerAuth isd;
          issuerCert = (case x5chain ia of Some (c # cs) \<Rightarrow> Some c | _ \<Rightarrow> None);
          attributes =
            concat (map (\<lambda>(ns, items).
                           map (\<lambda>item.
                                  \<lparr>attribute_ns = ns,
                                   attribute_id = elementIdentifier item,
                                   attribute_elementValue = elementValue item,
                                   attribute_isValid = isValid E item ns ia,
                                   attribute_matchCertificate = matchCertificate item ns ia\<rparr>)
                             items)
                      (IssuerSigned.nameSpaces isd));
          deviceAttributes =
            (case deviceSigned document of
               Some ds \<Rightarrow>
                 Some (concat (map (\<lambda>(ns, items).
                                      map (\<lambda>(identifier, v).
                                             \<lparr>deviceAttribute_ns = ns,
                                              deviceAttribute_id = identifier,
                                              deviceAttribute_elementValue = v\<rparr>)
                                        items)
                                 (DeviceSigned.nameSpaces ds)))
             | None \<Rightarrow> None);
          jwk =
            (case deviceKeyInfo (decodedPayload ia) of
               Some info \<Rightarrow>
                 (case deviceKey info of
                    Some k \<Rightarrow> Some (COSEKeyToJWK E k)
                  | None \<Rightarrow> None)
             | None \<Rightarrow> None);
          disclosedAttributes = length (filter attribute_isValid attributes);
          totalAttributes =
            foldl (\<lambda>prev (ns, digests). prev + length digests) 0
              (valueDigests (decodedPayload ia))
      in
        \<lparr>report_general =
           \<lparr>general_version = version decoded,
            general_type = ''DeviceResponse'',
            general_status = MDoc.status decoded,
            general_documents = length (documents decoded)\<rparr>,
         report_validityInfo = validityInfo (decodedPayload ia),
         report_issuerCertificate =
           (case issuerCert of
              Some c \<Rightarrow>
                Some \<lparr>issuerCertificate_subjectName = subjectName c,
                      issuerCertificate_pem = pem c,
                      issuerCertificate_notBefore = notBefore c,
                      issuerCertificate_notAfter = notAfter c,
                      issuerCertificate_serialNumber = serialNumber c,
                      issuerCertificate_thumbprint = thumbprint c\<rparr>
            | None \<Rightarrow> None),
         report_issuerSignature =
           \<lparr>issuerSignature_alg = algName ia,
            issuerSignature_isValid =
              list_all (\<lambda>c. status c = PASSED)
                (filter (\<lambda>c. category c = ISSUER_AUTH) dr),
            issuerSignature_reasons =
              map reasonOrCheck
                (filter (\<lambda>c. category c = ISSUER_AUTH \<and> status c = FAILED) dr),
            issuerSignature_digests =
              map (\<lambda>(ns, digests). (ns, length digests)) (valueDigests (decodedPayload ia))\<rparr>,
         report_deviceKey = jwk,
         report_deviceSignature =
           (case deviceSigned document of
              Some ds \<Rightarrow>
                Some \<lparr>deviceSignature_alg =
                        (case deviceSignature (deviceAuth ds) of
                           Some sg \<Rightarrow> Some (sign1Alg sg)
                         | None \<Rightarrow>
                             (case deviceMac (deviceAuth ds) of
                                Some mac \<Rightarrow> Some (macAlgName mac)
                              | None \<Rightarrow> None)),
                      deviceSignature_isValid =
                        list_all (\<lambda>c. status c = PASSED)
                          (filter (\<lambda>c. category c = DEVICE_AUTH) dr),
                      deviceSignature_reasons =
                        map reasonOrCheck
                          (filter (\<lambda>c. category c = DEVICE_AUTH \<and> status c = FAILED) dr)\<rparr>
            | None \<Rightarrow> None),
         report_dataIntegrity =
           \<lparr>dataIntegrity_disclosedAttributes = (disclosedAttributes, totalAttributes),
            dataIntegrity_isValid =
              list_all (\<lambda>c. status c = PASSED)
                (filter (\<lambda>c. category c = DATA_INTEGRITY) dr),
            dataIntegrity_reasons =
              map reasonOrCheck
                (filter (\<lambda>c. category c = DATA_INTEGRITY \<and> status c = FAILED) dr)\<rparr>,
         report_attributes = attributes,
         report_deviceAttributes = deviceAttributes\<rparr>)"

text \<open>
  \<open>getDiagnosticInformation\<close> runs \<open>verify\<close> with a callback that pushes every assessment
  to the array \<open>dr\<close>, and then reads the first document.  It is rejected with the error of
  \<open>verify\<close>, or with the TypeError of reading \<open>issuerSigned\<close> of \<open>undefined\<close> when there is
  no document.
\<close>

definition getDiagnosticInformation ::
  "Verifier \<Rightarrow> env \<Rightarrow> MDoc \<Rightarrow> (VerificationAssessment list) VerifyOptions
     \<Rightarrow> error + DiagnosticInformation" where
  "getDiagnosticInformation V E decoded options =
     (case verify V E decoded (options\<lparr>onCheck := Some collect\<rparr>) [] of
        (Some e, dr) \<Rightarrow> Inl e
      | (None, dr) \<Rightarrow>
          (case documents decoded of
             [] \<Rightarrow> Inl (TypeError ''issuerSigned'')
           | document # others \<Rightarrow>
               (case issuerSigned document of
                  None \<Rightarrow> Inl (TypeError ''issuerAuth'')
                | Some isd \<Rightarrow> Inr (diagnosticReport E decoded document isd dr))))"

section \<open>What a callback receives\<close>

text \<open>
  For a callback that does not throw: \<open>emitted\<close> lists the checks of a sequence that
  precede its first exception and \<open>raised\<close> is that exception.  \<open>called\<close> is the argument
  of the \<open>onCheck\<close> call of one step, and \<open>categorize\<close> is the assessment that
  \<open>onCatCheck\<close> builds.
\<close>

fun called :: "'a event \<Rightarrow> 'a option" where
  "called (Emit a) = Some a"
| "called (Attempt a handler) = Some a"
| "called (Raise e) = None"

fun emitted :: "'a event list \<Rightarrow> 'a list" where
  "emitted [] = []"
| "emitted (Emit a # es) = a # emitted es"
| "emitted (Attempt a handler # es) = a # emitted es"
| "emitted (Raise e # es) = []"

fun raised :: "'a event list \<Rightarrow> error option" where
  "raised [] = None"
| "raised (Emit a # es) = raised es"
| "raised (Attempt a handler # es) = raised es"
| "raised (Raise e # es) = Some e"

definition categorize :: "Category \<Rightarrow> Check \<Rightarrow> VerificationAssessment" where
  "categorize cat item =
     \<lparr>status = status item, check = check item, reason = reason item, category = cat\<rparr>"

section \<open>Example documents\<close>

text \<open>
  A reader with stub libraries that accept every signature, and a driving licence of one
  namespace whose issuer certificate names the country US.  The digest of the stub is
  the identity.
\<close>

definition example_env :: env where
  "example_env =
     \<lparr>now = 1000,
      toUTCString = (\<lambda>t. ''date''),
      compareVersions = (\<lambda>a b. Inr 0),
      importX509 = (\<lambda>p a. [1]),
      x509PathError = (\<lambda>chain roots. None),
      missingChainMessage = ''No leaf certificate'',
      sign1Verify = (\<lambda>ia k. True),
      digest = (\<lambda>a b. b),
      calculateDeviceAutenticationBytes = (\<lambda>stb dt ns. stb),
      importCOSEKey = Inr,
      deviceSignatureVerify = (\<lambda>dk sg dab. Inr True),
      deviceMacVerify = (\<lambda>ek dk stb mac dab. Inr True),
      COSEKeyToJWK = (\<lambda>k. ''jwk'')\<rparr>"

definition example_Verifier :: Verifier where
  "example_Verifier = \<lparr>issuersRootCertificates = [''root'']\<rparr>"

definition example_certificate :: X509Certificate where
  "example_certificate =
     \<lparr>subjectName = ''C=US'', pem = ''pem'', notBefore = 0, notAfter = 5000,
      serialNumber = ''01'', thumbprint = ''ab'', issuerName = Some ''C=US'',
      countryName = Some ''US'', stateOrProvince = None\<rparr>"

definition example_MSO :: MSO where
  "example_MSO =
     \<lparr>digestAlgorithm = ''SHA-256'',
      valueDigests = [(''org.iso.18013.5.1'', [(0, [1, 2, 3]), (1, [4, 5])])],
      deviceKeyInfo = Some \<lparr>deviceKey = Some [9]\<rparr>,
      validityInfo = Some \<lparr>signed = 100, validFrom = 100, validUntil = 3000\<rparr>\<rparr>"

definition example_IssuerAuth :: IssuerAuth where
  "example_IssuerAuth =
     \<lparr>algName = ''ES256'', x5chain = Some [example_certificate], payload = [7],
      signature = [8], decodedPayload = example_MSO\<rparr>"

definition item_issuing_country :: IssuerSignedItem where
  "item_issuing_country =
     \<lparr>digestID = 0, elementIdentifier = ''issuing_country'', elementValue = Text ''US'',
      originalBytes = [1, 2, 3]\<rparr>"

definition item_age_over_21 :: IssuerSignedItem where
  "item_age_over_21 =
     \<lparr>digestID = 1, elementIdentifier = ''age_over_21'', elementValue = NonText ''true'',
      originalBytes = [4, 5]\<rparr>"

definition example_IssuerSigned :: IssuerSigned where
  "example_IssuerSigned =
     \<lparr>IssuerSigned.nameSpaces =
        [(''org.iso.18013.5.1'', [item_issuing_country, item_age_over_21])],
      issuerAuth = example_IssuerAuth\<rparr>"

definition example_COSESign1 :: COSESign1 where
  "example_COSESign1 = \<lparr>sign1Alg = ''ES256'', sign1Protected = [1], sign1Signature = [2]\<rparr>"

definition example_COSEMac0 :: COSEMac0 where
  "example_COSEMac0 = \<lparr>alg = 5, macAlgName = ''HS256'', macProtected = [1], tag = [3]\<rparr>"

definition example_DeviceSigned :: DeviceSigned where
  "example_DeviceSigned =
     \<lparr>DeviceSigned.nameSpaces = [],
      deviceAuth = \<lparr>deviceSignature = Some example_COSESign1, deviceMac = None\<rparr>\<rparr>"

definition example_Document :: Document where
  "example_Document =
     \<lparr>docType = ''org.iso.18013.5.1.mDL'', issuerSigned = Some example_IssuerSigned,
      deviceSigned = Some example_DeviceSigned\<rparr>"

definition unsigned_Document :: Document where
  "unsigned_Document =
     \<lparr>docType = ''org.iso.18013.5.1.mDL'', issuerSigned = None, deviceSigned = None\<rparr>"

definition example_MDoc :: MDoc where
  "example_MDoc =
     \<lparr>documents = [example_Document], version = ''1.0'', MDoc.status = OK,
      documentErrors = []\<rparr>"

text \<open>
  A licence whose \<open>issuing_country\<close> is DE under a certificate of the country US, and
  whose \<open>age_over_21\<close> element was changed after issuance (its bytes no longer have the
  digest of the MSO).
\<close>

definition mismatch_MSO :: MSO where
  "mismatch_MSO =
     \<lparr>digestAlgorithm = ''SHA-256'',
      valueDigests = [(''org.iso.18013.5.1'', [(0, [1, 2, 4]), (1, [4, 5])])],
      deviceKeyInfo = Some \<lparr>deviceKey = Some [9]\<rparr>,
      validityInfo = Some \<lparr>signed = 100, validFrom = 100, validUntil = 3000\<rparr>\<rparr>"

definition item_issuing_country_DE :: IssuerSignedItem where
  "item_issuing_country_DE =
     \<lparr>digestID = 0, elementIdentifier = ''issuing_country'', elementValue = Text ''DE'',
      originalBytes = [1, 2, 4]\<rparr>"

definition item_age_changed :: IssuerSignedItem where
  "item_age_changed =
     \<lparr>digestID = 1, elementIdentifier = ''age_over_21'', elementValue = NonText ''false'',
      originalBytes = [4, 6]\<rparr>"

definition mismatch_IssuerSigned :: IssuerSigned where
  "mismatch_IssuerSigned =
     \<lparr>IssuerSigned.nameSpaces =
        [(''org.iso.18013.5.1'', [item_issuing_country_DE, item_age_changed])],
      issuerAuth = example_IssuerAuth\<lparr>decodedPayload := mismatch_MSO\<rparr>\<rparr>"

definition mismatch_Document :: Document where
  "mismatch_Document =
     \<lparr>docType = ''org.iso.18013.5.1.mDL'', issuerSigned = Some mismatch_IssuerSigned,
      deviceSigned = Some example_DeviceSigned\<rparr>"

section \<open>Vocabulary of the statements\<close>

text \<open>
  \<open>isDigestAssessment\<close> recognises the assessments of the digest checks by the start of
  their text; \<open>disclosed\<close> lists the disclosed items with their namespaces;
  \<open>digestAssessment\<close> is the assessment of the digest check of one item.
\<close>

definition isDigestAssessment :: "VerificationAssessment \<Rightarrow> bool" where
  "isDigestAssessment a = (take 26 (check a) = ''The calculated digest for '')"

definition disclosed :: "IssuerSigned \<Rightarrow> (string \<times> IssuerSignedItem) list" where
  "disclosed isd = concat (map (\<lambda>(ns, items). map (Pair ns) items) (IssuerSigned.nameSpaces isd))"

definition digestAssessment :: "env \<Rightarrow> IssuerAuth \<Rightarrow> string \<Rightarrow> IssuerSignedItem \<Rightarrow> VerificationAssessment" where
  "digestAssessment E ia ns ev =
     \<lparr>status = (if isValid E ev ns ia then PASSED else FAILED),
      check = digestCheck ns (elementIdentifier ev),
      reason = None,
      category = DATA_INTEGRITY\<rparr>"

text \<open>
  Variants of the example: an issuerAuth without \<open>x5chain\<close>, a device part that
  authenticates with a MAC, one that carries a signature and a MAC, and an MSO that
  expired before \<open>now\<close>.
\<close>

definition nocert_IssuerAuth :: IssuerAuth where
  "nocert_IssuerAuth = example_IssuerAuth\<lparr>x5chain := None\<rparr>"

definition nocert_Document :: Document where
  "nocert_Document =
     example_Document\<lparr>issuerSigned :=
       Some (example_IssuerSigned\<lparr>issuerAuth := nocert_IssuerAuth\<rparr>)\<rparr>"

definition nocert_MDoc :: MDoc where
  "nocert_MDoc = example_MDoc\<lparr>documents := [nocert_Document]\<rparr>"

definition mac_Document :: Document where
  "mac_Document =
     example_Document\<lparr>deviceSigned :=
       Some \<lparr>DeviceSigned.nameSpaces = [],
             deviceAuth = \<lparr>deviceSignature = None, deviceMac = Some example_COSEMac0\<rparr>\<rparr>\<rparr>"

definition mac_MDoc :: MDoc where
  "mac_MDoc = example_MDoc\<lparr>documents := [mac_Document]\<rparr>"

definition mac6_Document :: Document where
  "mac6_Document =
     example_Document\<lparr>deviceSigned :=
       Some \<lparr>DeviceSigned.nameSpaces = [],
             deviceAuth = \<lparr>deviceSignature = None,
                           deviceMac = Some (example_COSEMac0\<lparr>alg := 6\<rparr>)\<rparr>\<rparr>\<rparr>"

definition both_Document :: Document where
  "both_Document =
     example_Document\<lparr>deviceSigned :=
       Some \<lparr>DeviceSigned.nameSpaces = [],
             deviceAuth = \<lparr>deviceSignature = Some example_COSESign1,
                           deviceMac = Some example_COSEMac0\<rparr>\<rparr>\<rparr>"

definition both_MDoc :: MDoc where
  "both_MDoc = example_MDoc\<lparr>documents := [both_Document]\<rparr>"

definition expired_Document :: Document where
  "expired_Document =
     example_Document\<lparr>issuerSigned :=
       Some (example_IssuerSigned\<lparr>issuerAuth :=
         example_IssuerAuth\<lparr>decodedPayload :=
           example_MSO\<lparr>validityInfo :=
             Some \<lparr>signed = 100, validFrom = 100, validUntil = 500\<rparr>\<rparr>\<rparr>\<rparr>)\<rparr>"

text \<open>
  Options of a caller that passes the session transcript only.
\<close>

definition example_options :: "'st VerifyOptions" where
  "example_options =
     \<lparr>encodedSessionTranscript = Some [1], ephemeralReaderKey = None,
      disableCertificateChainValidation = False, onCheck = None\<rparr>"

text \<open>
  Two responses with the same first document: in the second one, the MSO of the second
  document has expired.
\<close>

definition two_MDoc :: MDoc where
  "two_MDoc = example_MDoc\<lparr>documents := [example_Document, example_Document]\<rparr>"

definition expired_MDoc :: MDoc where
  "expired_MDoc = example_MDoc\<lparr>documents := [example_Document, expired_Document]\<rparr>"

text \<open>
  A licence with three \<open>issuing_country\<close> elements, US, FR and DE, each with the digest
  of the MSO, under a certificate of the country US.
\<close>

definition item_country_FR :: IssuerSignedItem where
  "item_country_FR =
     \<lparr>digestID = 1, elementIdentifier = ''issuing_country'', elementValue = Text ''FR'',
      originalBytes = [6]\<rparr>"

definition item_country_DE :: IssuerSignedItem where
  "item_country_DE =
     \<lparr>digestID = 2, elementIdentifier = ''issuing_country'', elementValue = Text ''DE'',
      originalBytes = [7]\<rparr>"

definition several_IssuerSigned :: IssuerSigned where
  "several_IssuerSigned =
     \<lparr>IssuerSigned.nameSpaces =
        [(''org.iso.18013.5.1'', [item_issuing_country, item_country_FR, item_country_DE])],
      issuerAuth =
        example_IssuerAuth\<lparr>decodedPayload :=
          example_MSO\<lparr>valueDigests :=
            [(''org.iso.18013.5.1'', [(0, [1, 2, 3]), (1, [6]), (2, [7])])]\<rparr>\<rparr>\<rparr>"

definition several_Document :: Document where
  "several_Document =
     \<lparr>docType = ''org.iso.18013.5.1.mDL'', issuerSigned = Some several_IssuerSigned,
      deviceSigned = Some example_DeviceSigned\<rparr>"

text \<open>
  A reader whose COSE library finds that the device signature and the device MAC do not
  verify.
\<close>

definition rejecting_env :: env where
  "rejecting_env =
     example_env\<lparr>deviceSignatureVerify := (\<lambda>dk sg dab. Inr False),
                 deviceMacVerify := (\<lambda>ek dk stb mac dab. Inr False)\<rparr>"

section \<open>Properties of MDoc.addDocument\<close>

lemma addDocuments_signed:
  "(\<forall>x \<in> set (documents m). issuerSigned x \<noteq> None) \<Longrightarrow>
   (\<forall>x \<in> set (documents (addDocuments m ds)). issuerSigned x \<noteq> None)"
proof (induction ds arbitrary: m)
  case Nil
  then show ?case by simp
next
  case (Cons d ds)
  have "\<forall>x \<in> set (documents (snd (addDocument m d))). issuerSigned x \<noteq> None"
    using Cons.prems by (auto simp: addDocument_def)
  then show ?case
    using Cons.IH [of "snd (addDocument m d)"] by simp
qed

text \<open>
  Claim C10.  \<open>addDocument\<close> throws an Error with the message
  "Cannot add an unsigned document" and leaves the object as it was when the argument
  has no \<open>issuerSigned\<close>; otherwise it appends exactly that document and leaves version,
  status and documentErrors as they were.  Hence every document of an MDoc that was built
  from \<open>new MDoc()\<close> by calls of \<open>addDocument\<close> has an \<open>issuerSigned\<close>.
\<close>

theorem addDocument_spec:
  "(issuerSigned d = None \<longrightarrow>
      addDocument m d = (Some (Error ''Cannot add an unsigned document''), m))
   \<and> (issuerSigned d \<noteq> None \<longrightarrow>
      fst (addDocument m d) = None
      \<and> documents (snd (addDocument m d)) = documents m @ [d]
      \<and> version (snd (addDocument m d)) = version m
      \<and> MDoc.status (snd (addDocument m d)) = MDoc.status m
      \<and> documentErrors (snd (addDocument m d)) = documentErrors m)
   \<and> (\<forall>x \<in> set (documents (addDocuments MDoc_new ds)). issuerSigned x \<noteq> None)"
proof -
  have "\<forall>x \<in> set (documents MDoc_new). issuerSigned x \<noteq> None"
    by (simp add: MDoc_new_def)
  then have "\<forall>x \<in> set (documents (addDocuments MDoc_new ds)). issuerSigned x \<noteq> None"
    by (rule addDocuments_signed)
  then show ?thesis
    by (simp add: addDocument_def)
qed

theorem addDocument_spec_witness:
  "addDocument MDoc_new unsigned_Document
     = (Some (Error ''Cannot add an unsigned document''), MDoc_new)
   \<and> fst (addDocument MDoc_new example_Document) = None
   \<and> documents (snd (addDocument MDoc_new example_Document)) = [example_Document]
   \<and> list_all (\<lambda>x. issuerSigned x \<noteq> None)
        (documents (addDocuments MDoc_new [unsigned_Document, example_Document]))"
proof -
  have u: "issuerSigned unsigned_Document = None"
    by (simp add: unsigned_Document_def)
  have e: "issuerSigned example_Document \<noteq> None"
    by (simp add: example_Document_def)
  have d: "documents MDoc_new = []"
    by (simp add: MDoc_new_def)
  show ?thesis
    using addDocument_spec [of unsigned_Document MDoc_new "[unsigned_Document, example_Document]"]
      addDocument_spec [of example_Document MDoc_new "[]"] u e d
    by (simp add: list_all_iff)
qed

section \<open>What the collecting callback receives\<close>

lemma onCatCheck_collect:
  "onCatCheck (withOriginal (buildCallback (Some collect))) cat item st
     = (None, st @ [categorize cat item])"
  by (simp add: onCatCheck_def withOriginal_def buildCallback_def collect_def categorize_def)

lemma deliver_collect:
  "deliver (onCatCheck (withOriginal (buildCallback (Some collect))) cat) evs st
     = (raised evs, st @ map (categorize cat) (emitted evs))"
proof (induction evs arbitrary: st)
  case Nil
  then show ?case by simp
next
  case (Cons ev evs)
  then show ?case
    by (cases ev) (simp_all add: onCatCheck_collect)
qed

lemma deliver_collect_plain:
  "deliver (buildCallback (Some collect)) evs st = (raised evs, st @ emitted evs)"
proof (induction evs arbitrary: st)
  case Nil
  then show ?case by simp
next
  case (Cons ev evs)
  then show ?case
    by (cases ev) (simp_all add: buildCallback_def collect_def)
qed

lemma run_each_collect:
  "run_each (onCatCheck (withOriginal (buildCallback (Some collect))) cat) ts st
     = (map raised ts, st @ concat (map (\<lambda>t. map (categorize cat) (emitted t)) ts))"
  by (induction ts arbitrary: st) (simp_all add: deliver_collect)

lemma zip_None:
  "zip xs (map (\<lambda>x. None) xs) = map (\<lambda>x. (x, None)) xs"
  by (induction xs) simp_all

lemma first_error_append_None:
  "first_error (map (\<lambda>x. None) xs @ rs) = first_error rs"
  by (induction xs) (simp_all add: first_error_def)

lemma verifyData_collect:
  assumes "issuerSigned mdoc = Some isd"
  shows "verifyData E mdoc (buildCallback (Some collect)) st
     = (first_error (map (\<lambda>(ns, items). raised (verifyData_namespace E (issuerAuth isd) ns items))
                       (IssuerSigned.nameSpaces isd)),
        st @ [categorize DATA_INTEGRITY (digestAlgorithmCheck (decodedPayload (issuerAuth isd)))]
           @ map (\<lambda>(ns, items). categorize DATA_INTEGRITY
                     (namespaceCheck (decodedPayload (issuerAuth isd)) ns))
               (IssuerSigned.nameSpaces isd)
           @ concat (map (\<lambda>(ns, items). map (categorize DATA_INTEGRITY)
                            (emitted (verifyData_namespace E (issuerAuth isd) ns items)))
                       (IssuerSigned.nameSpaces isd)))"
proof -
  let ?nss = "IssuerSigned.nameSpaces isd"
  let ?ia = "issuerAuth isd"
  let ?heads = "map (\<lambda>(ns, items). [Emit (namespaceCheck (decodedPayload ?ia) ns)]) ?nss"
  have started: "map raised ?heads = map (\<lambda>x. None) ?nss"
    by (simp add: case_prod_beta)
  show ?thesis
    using assms
    by (simp add: verifyData_def Let_def andThen_def deliver_collect run_each_collect
          started zip_None filter_map first_error_append_None split_def comp_def
          del: deliver.simps)
qed

section \<open>The digest checks of the namespaces\<close>

lemma emitted_map_Emit:
  "emitted (map (\<lambda>x. Emit (f x)) xs @ rest) = map f xs @ emitted rest"
  by (induction xs) simp_all

lemma isDigestAssessment_digestCheck:
  "isDigestAssessment \<lparr>status = s, check = digestCheck ns i, reason = r, category = cat\<rparr>"
  by (simp add: isDigestAssessment_def digestCheck_def)

lemma not_digest_country:
  "\<not> isDigestAssessment \<lparr>status = s, check = countryCheck, reason = r, category = cat\<rparr>"
  by (simp add: isDigestAssessment_def countryCheck_def)

lemma not_digest_jurisdiction:
  "\<not> isDigestAssessment \<lparr>status = s, check = jurisdictionCheck, reason = r, category = cat\<rparr>"
  by (simp add: isDigestAssessment_def jurisdictionCheck_def)

lemma not_digest_namespaceCheck:
  "\<not> isDigestAssessment (categorize cat (namespaceCheck mso ns))"
  by (simp add: isDigestAssessment_def categorize_def namespaceCheck_def)

lemma not_digest_digestAlgorithmCheck:
  "\<not> isDigestAssessment (categorize cat (digestAlgorithmCheck mso))"
  by (simp add: isDigestAssessment_def categorize_def digestAlgorithmCheck_def)

text \<open>
  The events of a namespace are its digest checks, the valid items first, and then the
  checks against the certificate, which are no digest checks.
\<close>

lemma namespace_events_split:
  "\<exists>rest. verifyData_namespace E ia ns items =
      map (\<lambda>(ev, n, ok). Emit \<lparr>status = PASSED, check = digestCheck ns (elementIdentifier ev), reason = None\<rparr>)
        (filter (\<lambda>(ev, n, ok). ok) (map (\<lambda>ev. (ev, ns, isValid E ev ns ia)) items))
      @ map (\<lambda>(ev, n, ok). Emit \<lparr>status = FAILED, check = digestCheck ns (elementIdentifier ev), reason = None\<rparr>)
        (filter (\<lambda>(ev, n, ok). \<not> ok) (map (\<lambda>ev. (ev, ns, isValid E ev ns ia)) items))
      @ rest
    \<and> filter isDigestAssessment (map (categorize DATA_INTEGRITY) (emitted rest)) = []"
  by (auto simp: verifyData_namespace_def certificateChecks_def Let_def categorize_def
      not_digest_country not_digest_jurisdiction split: option.splits)

lemma namespace_digest_assessments:
  "mset (filter isDigestAssessment
          (map (categorize DATA_INTEGRITY) (emitted (verifyData_namespace E ia ns items))))
     = image_mset (digestAssessment E ia ns) (mset items)"
proof -
  obtain rest where split: "verifyData_namespace E ia ns items =
      map (\<lambda>(ev, n, ok). Emit \<lparr>status = PASSED, check = digestCheck ns (elementIdentifier ev), reason = None\<rparr>)
        (filter (\<lambda>(ev, n, ok). ok) (map (\<lambda>ev. (ev, ns, isValid E ev ns ia)) items))
      @ map (\<lambda>(ev, n, ok). Emit \<lparr>status = FAILED, check = digestCheck ns (elementIdentifier ev), reason = None\<rparr>)
        (filter (\<lambda>(ev, n, ok). \<not> ok) (map (\<lambda>ev. (ev, ns, isValid E ev ns ia)) items))
      @ rest"
    and rest: "filter isDigestAssessment (map (categorize DATA_INTEGRITY) (emitted rest)) = []"
    using namespace_events_split by blast
  have passed: "mset (filter isDigestAssessment (map (categorize DATA_INTEGRITY)
        (map (\<lambda>(ev, n, ok). \<lparr>status = PASSED, check = digestCheck ns (elementIdentifier ev), reason = None\<rparr>)
           (filter (\<lambda>(ev, n, ok). ok) (map (\<lambda>ev. (ev, ns, isValid E ev ns ia)) items)))))
      = image_mset (digestAssessment E ia ns) (filter_mset (\<lambda>ev. isValid E ev ns ia) (mset items))"
    by (induction items) (simp_all add: isDigestAssessment_digestCheck digestAssessment_def categorize_def)
  have failed: "mset (filter isDigestAssessment (map (categorize DATA_INTEGRITY)
        (map (\<lambda>(ev, n, ok). \<lparr>status = FAILED, check = digestCheck ns (elementIdentifier ev), reason = None\<rparr>)
           (filter (\<lambda>(ev, n, ok). \<not> ok) (map (\<lambda>ev. (ev, ns, isValid E ev ns ia)) items)))))
      = image_mset (digestAssessment E ia ns) (filter_mset (\<lambda>ev. \<not> isValid E ev ns ia) (mset items))"
    by (induction items) (simp_all add: isDigestAssessment_digestCheck digestAssessment_def categorize_def)
  have "mset (filter isDigestAssessment
          (map (categorize DATA_INTEGRITY) (emitted (verifyData_namespace E ia ns items))))
      = image_mset (digestAssessment E ia ns) (filter_mset (\<lambda>ev. isValid E ev ns ia) (mset items))
        + image_mset (digestAssessment E ia ns) (filter_mset (\<lambda>ev. \<not> isValid E ev ns ia) (mset items))"
    unfolding split
    using passed failed rest
    by (simp add: emitted_map_Emit split_def)
  also have "\<dots> = image_mset (digestAssessment E ia ns) (mset items)"
    by (metis image_mset_union multiset_partition)
  finally show ?thesis .
qed

lemma all_namespaces_digest_assessments:
  "mset (filter isDigestAssessment
          (concat (map (\<lambda>(ns, items). map (categorize DATA_INTEGRITY)
                          (emitted (verifyData_namespace E ia ns items))) nss)))
     = image_mset (\<lambda>(ns, ev). digestAssessment E ia ns ev)
         (mset (concat (map (\<lambda>(ns, items). map (Pair ns) items) nss)))"
proof (induction nss)
  case Nil
  then show ?case by simp
next
  case (Cons p nss)
  obtain ns items where p: "p = (ns, items)" by (cases p)
  have here: "image_mset (\<lambda>(ns, ev). digestAssessment E ia ns ev) (mset (map (Pair ns) items))
      = image_mset (digestAssessment E ia ns) (mset items)"
    by (simp add: image_mset.compositionality comp_def)
  show ?case
    unfolding p
    using Cons.IH here namespace_digest_assessments [of E ia ns items]
    by (simp del: mset_filter mset_map)
qed

lemma filter_namespaceChecks:
  "filter isDigestAssessment
     (map (\<lambda>(ns, items). categorize DATA_INTEGRITY (namespaceCheck mso ns)) nss) = []"
  by (induction nss) (auto simp: not_digest_namespaceCheck)

lemma isValid_iff:
  "isValid E ev ns ia \<longleftrightarrow>
     Option.bind (map_of (valueDigests (decodedPayload ia)) ns) (\<lambda>digests. map_of digests (digestID ev))
       = Some (digest E (digestAlgorithm (decodedPayload ia)) (originalBytes ev))"
  by (auto simp: isValid_def split: option.splits)

section \<open>Digest binding\<close>

text \<open>
  Claim C1.  The callback collects every assessment.  Among the assessments that
  \<open>verifyData\<close> delivers, those of the digest checks are, as a multiset, the image of
  the disclosed items: each item \<open>ev\<close> of a namespace \<open>ns\<close> has exactly one, in the
  category DATA_INTEGRITY, with the text that names \<open>ns\<close> and the element identifier,
  PASSED when the digest of the original bytes under the digest algorithm of the MSO
  is \<open>valueDigests[ns][digestID]\<close> and FAILED when it is not (or when there is no
  such entry).
\<close>

theorem verifyData_digest_binding:
  assumes "issuerSigned mdoc = Some isd"
  shows "mset (filter isDigestAssessment
                (snd (verifyData E mdoc (buildCallback (Some collect)) [])))
     = image_mset
         (\<lambda>(ns, ev).
            \<lparr>status =
               (if Option.bind (map_of (valueDigests (decodedPayload (issuerAuth isd))) ns)
                     (\<lambda>digests. map_of digests (digestID ev))
                   = Some (digest E (digestAlgorithm (decodedPayload (issuerAuth isd)))
                             (originalBytes ev))
                then PASSED else FAILED),
             check = ''The calculated digest for '' @ ns @ ''/'' @ elementIdentifier ev
                       @ '' attribute must match the digest in the issuerAuth element'',
             reason = None,
             category = DATA_INTEGRITY\<rparr>)
         (mset (disclosed isd))"
proof -
  have "mset (filter isDigestAssessment
                (snd (verifyData E mdoc (buildCallback (Some collect)) [])))
      = image_mset (\<lambda>(ns, ev). digestAssessment E (issuerAuth isd) ns ev) (mset (disclosed isd))"
    using all_namespaces_digest_assessments [of E "issuerAuth isd" "IssuerSigned.nameSpaces isd"]
    by (simp add: verifyData_collect [OF assms] not_digest_digestAlgorithmCheck
        filter_namespaceChecks disclosed_def del: mset_filter mset_map)
  then show ?thesis
    by (simp add: digestAssessment_def digestCheck_def isValid_iff)
qed

theorem verifyData_digest_binding_witness:
  "mset (filter isDigestAssessment
           (snd (verifyData example_env mismatch_Document (buildCallback (Some collect)) [])))
     = {#\<lparr>status = PASSED,
          check = ''The calculated digest for org.iso.18013.5.1/issuing_country attribute must match the digest in the issuerAuth element'',
          reason = None, category = DATA_INTEGRITY\<rparr>,
         \<lparr>status = FAILED,
          check = ''The calculated digest for org.iso.18013.5.1/age_over_21 attribute must match the digest in the issuerAuth element'',
          reason = None, category = DATA_INTEGRITY\<rparr>#}"
proof -
  have m1: "issuerSigned mismatch_Document = Some mismatch_IssuerSigned"
    by (simp add: mismatch_Document_def)
  have d: "disclosed mismatch_IssuerSigned
             = [(''org.iso.18013.5.1'', item_issuing_country_DE),
                (''org.iso.18013.5.1'', item_age_changed)]"
    by (simp add: disclosed_def mismatch_IssuerSigned_def)
  show ?thesis
    unfolding verifyData_digest_binding [OF m1, of example_env] d
    by (simp add: mismatch_IssuerSigned_def mismatch_MSO_def example_env_def
        item_issuing_country_DE_def item_age_changed_def)
qed

lemmas example_defs =
  example_env_def example_Verifier_def example_certificate_def example_MSO_def
  example_IssuerAuth_def item_issuing_country_def item_age_over_21_def
  example_IssuerSigned_def example_COSESign1_def example_COSEMac0_def
  example_DeviceSigned_def example_Document_def example_MDoc_def example_options_def
  nocert_IssuerAuth_def nocert_Document_def nocert_MDoc_def mac_Document_def mac_MDoc_def
  mac6_Document_def both_Document_def both_MDoc_def expired_Document_def

lemmas verifier_defs =
  verify_def verify_format_events_def verify_document_def verifyIssuerSignature_def
  verifyIssuerSignature_events_def verifyDeviceSignature_def verifyDeviceSignature_events_def
  verifyData_def verifyData_namespace_def certificateChecks_def invalidCountry_def
  invalidJurisdiction_def digestAlgorithmCheck_def namespaceCheck_def
  supportedDigestAlgorithm_def DIGEST_ALGS_def Object_prototype_keys_def
  certificate_def verifyX509Chain_def isValid_def matchCertificate_def hasSupportedAlg_def
  IssuerAuth_countryName_def IssuerAuth_stateOrProvince_def truthy_def MDL_NAMESPACE_def
  buildCallback_def defaultCallback_def onCatCheck_def withOriginal_def collect_def
  andThen_def first_error_def Let_def

section \<open>What the collecting callback receives from verify\<close>

lemma verifyIssuerSignature_collect:
  "verifyIssuerSignature V E ia d (buildCallback (Some collect)) st
     = (raised (verifyIssuerSignature_events V E ia d),
        st @ map (categorize ISSUER_AUTH) (emitted (verifyIssuerSignature_events V E ia d)))"
  by (simp add: verifyIssuerSignature_def deliver_collect)

lemma verifyDeviceSignature_collect:
  "verifyDeviceSignature E document
       \<lparr>ephemeralPrivateKey = k, sessionTranscriptBytes = t,
        DeviceVerifyOptions.onCheck = buildCallback (Some collect)\<rparr> st
     = (raised (verifyDeviceSignature_events E document k t),
        st @ map (categorize DEVICE_AUTH) (emitted (verifyDeviceSignature_events E document k t)))"
  by (simp add: verifyDeviceSignature_def deliver_collect)

text \<open>
  With the collecting callback a step only appends to the array, and what it throws
  does not depend on the array.
\<close>

lemma verifyData_collect_append:
  "verifyData E mdoc (buildCallback (Some collect)) st
     = (fst (verifyData E mdoc (buildCallback (Some collect)) []),
        st @ snd (verifyData E mdoc (buildCallback (Some collect)) []))"
proof (cases "issuerSigned mdoc")
  case None
  then show ?thesis by (simp add: verifyData_def)
next
  case (Some isd)
  show ?thesis
    by (simp add: verifyData_collect [OF Some])
qed

lemma andThen_None: "andThen (None, st) f = f st"
  by (simp add: andThen_def)

lemma andThen_Some: "andThen (Some e, st) f = (Some e, st)"
  by (simp add: andThen_def)

lemma andThen_raised: "fst r = Some e \<Longrightarrow> andThen r f = r"
  by (cases r) (simp add: andThen_def)

lemma andThen_returned: "fst r = None \<Longrightarrow> andThen r f = f (snd r)"
  by (cases r) (simp add: andThen_def)

lemma verify_document_collect:
  assumes "issuerSigned d = Some isd"
  shows "verify_document V E options (buildCallback (Some collect)) d st =
    (let issuer = verifyIssuerSignature_events V E (issuerAuth isd)
                    (disableCertificateChainValidation options);
         device = verifyDeviceSignature_events E d (ephemeralReaderKey options)
                    (encodedSessionTranscript options);
         st1 = st @ map (categorize ISSUER_AUTH) (emitted issuer);
         st2 = st1 @ map (categorize DEVICE_AUTH) (emitted device)
     in if raised issuer \<noteq> None then (raised issuer, st1)
        else if raised device \<noteq> None then (raised device, st2)
        else (fst (verifyData E d (buildCallback (Some collect)) []),
              st2 @ snd (verifyData E d (buildCallback (Some collect)) [])))"
proof -
  let ?issuer = "verifyIssuerSignature_events V E (issuerAuth isd)
                    (disableCertificateChainValidation options)"
  let ?device = "verifyDeviceSignature_events E d (ephemeralReaderKey options)
                    (encodedSessionTranscript options)"
  let ?st1 = "st @ map (categorize ISSUER_AUTH) (emitted ?issuer)"
  let ?st2 = "?st1 @ map (categorize DEVICE_AUTH) (emitted ?device)"
  show ?thesis
  proof (cases "raised ?issuer")
    case (Some e)
    then show ?thesis
      by (simp add: verify_document_def assms verifyIssuerSignature_collect andThen_Some)
  next
    case None
    note issuer_ok = this
    show ?thesis
    proof (cases "raised ?device")
      case (Some e)
      then show ?thesis
        by (simp add: verify_document_def assms verifyIssuerSignature_collect
            verifyDeviceSignature_collect issuer_ok andThen_None andThen_Some)
    next
      case None
      have "verify_document V E options (buildCallback (Some collect)) d st
          = verifyData E d (buildCallback (Some collect)) ?st2"
        by (simp add: verify_document_def assms verifyIssuerSignature_collect
            verifyDeviceSignature_collect issuer_ok None andThen_None)
      also have "\<dots> = (fst (verifyData E d (buildCallback (Some collect)) []),
              ?st2 @ snd (verifyData E d (buildCallback (Some collect)) []))"
        by (rule verifyData_collect_append)
      finally show ?thesis
        by (simp add: issuer_ok None Let_def)
    qed
  qed
qed

lemma verify_document_collect_append:
  "verify_document V E options (buildCallback (Some collect)) d st
     = (fst (verify_document V E options (buildCallback (Some collect)) d []),
        st @ snd (verify_document V E options (buildCallback (Some collect)) d []))"
proof (cases "issuerSigned d")
  case None
  then show ?thesis by (simp add: verify_document_def)
next
  case (Some isd)
  show ?thesis
    unfolding verify_document_collect [OF Some]
    by (simp add: Let_def)
qed

lemma verify_documents_collect_append:
  "verify_documents V E options (buildCallback (Some collect)) ds st
     = (fst (verify_documents V E options (buildCallback (Some collect)) ds []),
        st @ snd (verify_documents V E options (buildCallback (Some collect)) ds []))"
proof (induction ds arbitrary: st)
  case Nil
  then show ?case by simp
next
  case (Cons d ds)
  let ?one = "verify_document V E options (buildCallback (Some collect)) d"
  let ?more = "verify_documents V E options (buildCallback (Some collect)) ds"
  have one: "?one st = (fst (?one []), st @ snd (?one []))"
    by (rule verify_document_collect_append)
  show ?case
  proof (cases "fst (?one [])")
    case (Some e)
    have "verify_documents V E options (buildCallback (Some collect)) (d # ds) st = ?one st"
      using one Some by (simp add: andThen_raised)
    moreover have "verify_documents V E options (buildCallback (Some collect)) (d # ds) [] = ?one []"
      using Some by (simp add: andThen_raised)
    ultimately show ?thesis
      using one by simp
  next
    case None
    have "verify_documents V E options (buildCallback (Some collect)) (d # ds) st
            = ?more (st @ snd (?one []))"
      using one None by (simp add: andThen_returned)
    also have "\<dots> = (fst (?more []), (st @ snd (?one [])) @ snd (?more []))"
      by (rule Cons.IH)
    finally have left: "verify_documents V E options (buildCallback (Some collect)) (d # ds) st
            = (fst (?more []), st @ snd (?one []) @ snd (?more []))"
      by simp
    have "verify_documents V E options (buildCallback (Some collect)) (d # ds) []
            = ?more (snd (?one []))"
      using None by (simp add: andThen_returned)
    also have "\<dots> = (fst (?more []), snd (?one []) @ snd (?more []))"
      by (rule Cons.IH)
    finally show ?thesis
      using left by simp
  qed
qed

lemma verify_documents_append:
  "verify_documents V E options cb (xs @ ys) st
     = andThen (verify_documents V E options cb xs st) (verify_documents V E options cb ys)"
proof (induction xs arbitrary: st)
  case Nil
  then show ?case by (simp add: andThen_None)
next
  case (Cons x xs)
  show ?case
  proof (cases "verify_document V E options cb x st")
    case (Pair r st')
    then show ?thesis
      using Cons.IH [of st'] by (cases r) (simp_all add: andThen_None andThen_Some)
  qed
qed

lemma verify_document_options:
  "verify_document V E (options\<lparr>onCheck := x\<rparr>) cb d st = verify_document V E options cb d st"
  by (simp add: verify_document_def split: option.splits)

lemma verify_documents_options:
  "verify_documents V E (options\<lparr>onCheck := x\<rparr>) cb ds = verify_documents V E options cb ds"
proof (induction ds)
  case Nil
  show ?case by (rule ext) simp
next
  case (Cons d ds)
  show ?case by (rule ext) (simp add: verify_document_options Cons.IH)
qed

text \<open>
  The format checks throw what \<open>compareVersions\<close> throws, whatever the documents are.
\<close>

lemma verify_format_raised:
  "raised (verify_format_events E dr)
     = (case compareVersions E (version dr) ''1.0'' of Inl e \<Rightarrow> Some e | Inr order \<Rightarrow> None)"
  by (simp add: verify_format_events_def split: sum.splits)

lemma verify_format_raised_documents:
  "raised (verify_format_events E (dr\<lparr>documents := ds\<rparr>)) = raised (verify_format_events E dr)"
  by (simp add: verify_format_raised)

lemma verify_collect_format:
  "verify V E dr (options\<lparr>onCheck := Some collect\<rparr>) []
     = andThen (raised (verify_format_events E dr), emitted (verify_format_events E dr))
         (verify_documents V E options (buildCallback (Some collect)) (documents dr))"
proof -
  have cb: "buildCallback (onCheck (options\<lparr>onCheck := Some collect\<rparr>)) = buildCallback (Some collect)"
    by simp
  show ?thesis
    unfolding verify_def Let_def cb deliver_collect_plain verify_documents_options
    by simp
qed

lemma verify_collect_returns:
  assumes "fst (verify V E dr (options\<lparr>onCheck := Some collect\<rparr>) []) = None"
  shows "raised (verify_format_events E dr) = None"
  using assms unfolding verify_collect_format
  by (cases "raised (verify_format_events E dr)") (simp_all add: andThen_def)

lemma verify_collect:
  assumes format: "raised (verify_format_events E dr) = None"
  shows "verify V E dr (options\<lparr>onCheck := Some collect\<rparr>) []
     = (fst (verify_documents V E options (buildCallback (Some collect)) (documents dr) []),
        emitted (verify_format_events E dr)
          @ snd (verify_documents V E options (buildCallback (Some collect)) (documents dr) []))"
proof -
  have cb: "buildCallback (onCheck (options\<lparr>onCheck := Some collect\<rparr>)) = buildCallback (Some collect)"
    by simp
  have "verify V E dr (options\<lparr>onCheck := Some collect\<rparr>) []
      = verify_documents V E options (buildCallback (Some collect)) (documents dr)
          (emitted (verify_format_events E dr))"
    unfolding verify_def Let_def cb deliver_collect_plain format andThen_None
      verify_documents_options
    by simp
  then show ?thesis
    using verify_documents_collect_append [of V E options "documents dr" "emitted (verify_format_events E dr)"]
    by simp
qed

text \<open>
  The documents before \<open>d\<close> are verified without an exception: \<open>verify\<close> reaches \<open>d\<close>, and
  the callback receives what the loop body delivers for \<open>d\<close>.
\<close>

lemma verify_reaches_document:
  assumes "documents dr = pre @ d # post"
    and "fst (verify V E (dr\<lparr>documents := pre\<rparr>) (options\<lparr>onCheck := Some collect\<rparr>) []) = None"
    and "a \<in> set (snd (verify_document V E options (buildCallback (Some collect)) d []))"
  shows "a \<in> set (snd (verify V E dr (options\<lparr>onCheck := Some collect\<rparr>) []))"
proof -
  let ?VD = "verify_documents V E options (buildCallback (Some collect))"
  let ?one = "verify_document V E options (buildCallback (Some collect)) d"
  have format: "raised (verify_format_events E dr) = None"
    using verify_collect_returns [OF assms(2)] by (simp add: verify_format_raised_documents)
  have pre: "fst (?VD pre []) = None"
    using assms(2) verify_collect_returns [OF assms(2)] by (simp add: verify_collect)
  have "?VD (pre @ d # post) [] = ?VD (d # post) (snd (?VD pre []))"
    using pre by (simp add: verify_documents_append andThen_returned)
  also have "\<dots> = andThen (?one (snd (?VD pre []))) (?VD post)"
    by simp
  also have "?one (snd (?VD pre [])) = (fst (?one []), snd (?VD pre []) @ snd (?one []))"
    by (rule verify_document_collect_append)
  finally have all: "?VD (pre @ d # post) []
      = andThen (fst (?one []), snd (?VD pre []) @ snd (?one [])) (?VD post)" .
  have "a \<in> set (snd (?VD (pre @ d # post) []))"
  proof (cases "fst (?one [])")
    case (Some e)
    then show ?thesis
      using all assms(3) by (simp add: andThen_Some)
  next
    case None
    have "?VD post (snd (?VD pre []) @ snd (?one []))
        = (fst (?VD post []), (snd (?VD pre []) @ snd (?one [])) @ snd (?VD post []))"
      by (rule verify_documents_collect_append)
    then show ?thesis
      using all None assms(3) by (simp add: andThen_None)
  qed
  then show ?thesis
    by (simp add: verify_collect [OF format] assms(1))
qed

section \<open>Validity of the MSO at the time of verification\<close>

text \<open>
  With a leaf certificate and a \<open>validityInfo\<close>, \<open>verifyIssuerSignature\<close> delivers exactly
  one assessment of the check on the validity of the MSO; it is FAILED exactly when
  \<open>now\<close> lies outside the interval from \<open>validFrom\<close> to \<open>validUntil\<close>.
\<close>

lemma verifyIssuerSignature_validity:
  assumes "certificate ia = Some c" and "validityInfo (decodedPayload ia) = Some vi"
  shows "filter (\<lambda>a. check a = ''The MSO must be valid at the time of verification'')
           (snd (verifyIssuerSignature V E ia d (buildCallback (Some collect)) []))
     = [\<lparr>status = (if now E < validFrom vi \<or> now E > validUntil vi then FAILED else PASSED),
         check = ''The MSO must be valid at the time of verification'',
         reason = Some (''The MSO must be valid at the time of verification (''
                          @ toUTCString E (now E) @ '')''),
         category = ISSUER_AUTH\<rparr>]"
  by (cases d; cases "verifyX509Chain E ia (issuersRootCertificates V)")
     (simp_all add: verifyIssuerSignature_collect verifyIssuerSignature_events_def assms
        categorize_def Let_def split del: if_split)

text \<open>
  Without a leaf certificate the method throws before that check, whatever the
  callback does: the TypeError comes from \<open>certificate.notBefore\<close> in the reason of the
  check on the signed date.
\<close>

lemma verifyIssuerSignature_without_certificate:
  assumes "certificate ia = None" and "validityInfo (decodedPayload ia) = Some vi"
  shows "fst (verifyIssuerSignature V E ia d (buildCallback (Some collect)) [])
           = Some (TypeError ''notBefore'')
       \<and> filter (\<lambda>a. check a = ''The MSO must be valid at the time of verification'')
           (snd (verifyIssuerSignature V E ia d (buildCallback (Some collect)) [])) = []"
  by (simp add: verifyIssuerSignature_collect verifyIssuerSignature_events_def assms
      categorize_def Let_def split: option.splits)

text \<open>
  Claim C3, at the input where the code departs from it: the issuerAuth of the example
  without its \<open>x5chain\<close>, and a callback that collects.  The callback receives the two
  assessments on the certificate and on the signature; then the method throws, and no
  assessment on the validity of the MSO is delivered.
\<close>

theorem verifyIssuerSignature_missing_certificate:
  "verifyIssuerSignature example_Verifier example_env nocert_IssuerAuth False
     (buildCallback (Some collect)) []
   = (Some (TypeError ''notBefore''),
      [\<lparr>status = FAILED, check = ''Issuer certificate must be valid'',
        reason = Some ''No leaf certificate'', category = ISSUER_AUTH\<rparr>,
       \<lparr>status = FAILED, check = ''Issuer signature must be valid'',
        reason = None, category = ISSUER_AUTH\<rparr>])"
  by (simp add: example_defs verifier_defs)

section \<open>A document without a leaf certificate\<close>

lemma issuer_events_missing_leaf:
  assumes "certificate ia = None"
  shows "\<exists>rest. verifyIssuerSignature_events V E ia False
           = Emit \<lparr>status = FAILED, check = ''Issuer certificate must be valid'',
                   reason = Some (missingChainMessage E)\<rparr> # rest"
proof -
  have "verifyX509Chain E ia (issuersRootCertificates V) = Some (missingChainMessage E)"
    using assms by (auto simp: verifyX509Chain_def certificate_def split: option.splits list.splits)
  then show ?thesis
    by (simp add: verifyIssuerSignature_events_def Let_def)
qed

lemma verify_document_issuer_assessments:
  assumes "issuerSigned d = Some isd"
    and "x \<in> set (emitted (verifyIssuerSignature_events V E (issuerAuth isd)
                              (disableCertificateChainValidation options)))"
  shows "categorize ISSUER_AUTH x
           \<in> set (snd (verify_document V E options (buildCallback (Some collect)) d []))"
  using assms(2) by (auto simp: verify_document_collect [OF assms(1)] Let_def)

text \<open>
  Claim C5 as amended.  Let \<open>verify\<close> reach a document \<open>d\<close> (the documents before it are
  verified without an exception) whose issuerAuth has no leaf certificate.  Unless
  \<open>disableCertificateChainValidation\<close> is set, the callback receives a FAILED assessment
  of the category ISSUER_AUTH with the check "Issuer certificate must be valid".
\<close>

theorem verify_missing_leaf_certificate:
  assumes "documents dr = pre @ d # post"
    and "fst (verify V E (dr\<lparr>documents := pre\<rparr>) (options\<lparr>onCheck := Some collect\<rparr>) []) = None"
    and "issuerSigned d = Some isd"
    and "certificate (issuerAuth isd) = None"
    and "\<not> disableCertificateChainValidation options"
  shows "\<lparr>status = FAILED, check = ''Issuer certificate must be valid'',
          reason = Some (missingChainMessage E), category = ISSUER_AUTH\<rparr>
           \<in> set (snd (verify V E dr (options\<lparr>onCheck := Some collect\<rparr>) []))"
proof -
  obtain rest where "verifyIssuerSignature_events V E (issuerAuth isd) False
           = Emit \<lparr>status = FAILED, check = ''Issuer certificate must be valid'',
                   reason = Some (missingChainMessage E)\<rparr> # rest"
    using issuer_events_missing_leaf [OF assms(4)] by blast
  then have "\<lparr>status = FAILED, check = ''Issuer certificate must be valid'',
               reason = Some (missingChainMessage E)\<rparr>
      \<in> set (emitted (verifyIssuerSignature_events V E (issuerAuth isd)
                              (disableCertificateChainValidation options)))"
    using assms(5) by simp
  from verify_document_issuer_assessments [OF assms(3) this]
  have "\<lparr>status = FAILED, check = ''Issuer certificate must be valid'',
          reason = Some (missingChainMessage E), category = ISSUER_AUTH\<rparr>
      \<in> set (snd (verify_document V E options (buildCallback (Some collect)) d []))"
    by (simp add: categorize_def)
  then show ?thesis
    by (rule verify_reaches_document [OF assms(1,2)])
qed

theorem verify_missing_leaf_certificate_witness:
  "\<lparr>status = FAILED, check = ''Issuer certificate must be valid'',
    reason = Some ''No leaf certificate'', category = ISSUER_AUTH\<rparr>
     \<in> set (snd (verify example_Verifier example_env nocert_MDoc
                    (example_options\<lparr>onCheck := Some collect\<rparr>) []))"
proof -
  have 1: "documents nocert_MDoc = [] @ nocert_Document # []"
    by (simp add: nocert_MDoc_def)
  have 2: "fst (verify example_Verifier example_env (nocert_MDoc\<lparr>documents := []\<rparr>)
                 (example_options\<lparr>onCheck := Some collect\<rparr>) []) = None"
    by (simp add: example_defs verifier_defs)
  have 3: "issuerSigned nocert_Document
             = Some (example_IssuerSigned\<lparr>issuerAuth := nocert_IssuerAuth\<rparr>)"
    by (simp add: nocert_Document_def)
  have 4: "certificate (issuerAuth (example_IssuerSigned\<lparr>issuerAuth := nocert_IssuerAuth\<rparr>)) = None"
    by (simp add: nocert_IssuerAuth_def certificate_def)
  have 5: "\<not> disableCertificateChainValidation example_options"
    by (simp add: example_options_def)
  have 6: "missingChainMessage example_env = ''No leaf certificate''"
    by (simp add: example_env_def)
  show ?thesis
    using verify_missing_leaf_certificate [OF 1 2 3 4 5] 6 by simp
qed

text \<open>
  The claim as it was stated fails when the option is set: the callback receives the
  three assessments on the format and the one on the signature, and none with the check
  "Issuer certificate must be valid".
\<close>

theorem verify_missing_leaf_certificate_counterexample:
  "verify example_Verifier example_env nocert_MDoc
     (example_options\<lparr>disableCertificateChainValidation := True, onCheck := Some collect\<rparr>) []
   = (Some (TypeError ''notBefore''),
      [\<lparr>status = PASSED, check = ''Device Response must include \"version\" element.'',
        reason = None, category = DOCUMENT_FORMAT\<rparr>,
       \<lparr>status = PASSED, check = ''Device Response version must be 1.0 or greater'',
        reason = None, category = DOCUMENT_FORMAT\<rparr>,
       \<lparr>status = PASSED, check = ''Device Response must include at least one document.'',
        reason = None, category = DOCUMENT_FORMAT\<rparr>,
       \<lparr>status = FAILED, check = ''Issuer signature must be valid'',
        reason = None, category = ISSUER_AUTH\<rparr>])"
  by (simp add: example_defs verifier_defs)

section \<open>Certificate chain validation disabled\<close>

lemma emitted_subset: "x \<in> set (emitted evs) \<Longrightarrow> \<exists>ev \<in> set evs. called ev = Some x"
proof (induction evs)
  case Nil
  then show ?case by simp
next
  case (Cons ev evs)
  then show ?case by (cases ev) auto
qed

lemma emitted_after:
  "raised xs = None \<Longrightarrow> emitted (xs @ ys) = emitted xs @ emitted ys"
proof (induction xs)
  case Nil
  then show ?case by simp
next
  case (Cons ev xs)
  then show ?case by (cases ev) simp_all
qed

lemma issuer_events_disabled:
  "ev \<in> set (verifyIssuerSignature_events V E ia True) \<Longrightarrow> called ev = Some x
     \<Longrightarrow> check x \<noteq> ''Issuer certificate must be valid''"
  by (cases "validityInfo (decodedPayload ia)"; cases "certificate ia")
     (auto simp: verifyIssuerSignature_events_def Let_def split del: if_split)

lemma device_events_checks:
  "ev \<in> set (verifyDeviceSignature_events E d k t) \<Longrightarrow> called ev = Some x
     \<Longrightarrow> check x \<noteq> ''Issuer certificate must be valid''"
  unfolding verifyDeviceSignature_events_def Let_def
  by (auto split: option.splits sum.splits if_splits)

lemma namespace_events_checks:
  "ev \<in> set (verifyData_namespace E ia ns items) \<Longrightarrow> called ev = Some x
     \<Longrightarrow> check x \<noteq> ''Issuer certificate must be valid''"
  unfolding verifyData_namespace_def certificateChecks_def Let_def
  by (auto simp: digestCheck_def countryCheck_def jurisdictionCheck_def
      split: option.splits if_splits)

lemma verifyData_checks:
  assumes "a \<in> set (snd (verifyData E d (buildCallback (Some collect)) []))"
  shows "check a \<noteq> ''Issuer certificate must be valid''"
proof (cases "issuerSigned d")
  case None
  then show ?thesis using assms by (simp add: verifyData_def)
next
  case (Some isd)
  from assms show ?thesis
    unfolding verifyData_collect [OF Some]
    by (auto simp: categorize_def digestAlgorithmCheck_def namespaceCheck_def
        dest!: emitted_subset dest: namespace_events_checks split del: if_split)
qed

lemma verify_document_delivered:
  assumes "issuerSigned d = Some isd"
    and "a \<in> set (snd (verify_document V E options (buildCallback (Some collect)) d []))"
  shows "a \<in> categorize ISSUER_AUTH ` set (emitted (verifyIssuerSignature_events V E (issuerAuth isd)
              (disableCertificateChainValidation options)))
      \<or> a \<in> categorize DEVICE_AUTH ` set (emitted (verifyDeviceSignature_events E d
              (ephemeralReaderKey options) (encodedSessionTranscript options)))
      \<or> a \<in> set (snd (verifyData E d (buildCallback (Some collect)) []))"
proof -
  let ?issuer = "verifyIssuerSignature_events V E (issuerAuth isd)
              (disableCertificateChainValidation options)"
  let ?device = "verifyDeviceSignature_events E d
              (ephemeralReaderKey options) (encodedSessionTranscript options)"
  let ?data = "verifyData E d (buildCallback (Some collect)) []"
  have closed: "snd (verify_document V E options (buildCallback (Some collect)) d []) =
     (if raised ?issuer \<noteq> None then map (categorize ISSUER_AUTH) (emitted ?issuer)
      else if raised ?device \<noteq> None
        then map (categorize ISSUER_AUTH) (emitted ?issuer)
               @ map (categorize DEVICE_AUTH) (emitted ?device)
        else map (categorize ISSUER_AUTH) (emitted ?issuer)
               @ map (categorize DEVICE_AUTH) (emitted ?device) @ snd ?data)"
    unfolding verify_document_collect [OF assms(1)] Let_def
    by (simp split del: if_split add: if_distrib [of snd] cong: if_cong)
  have "set (snd (verify_document V E options (buildCallback (Some collect)) d []))
      \<subseteq> categorize ISSUER_AUTH ` set (emitted ?issuer)
        \<union> categorize DEVICE_AUTH ` set (emitted ?device) \<union> set (snd ?data)"
    unfolding closed
    by (cases "raised ?issuer"; cases "raised ?device") auto
  then show ?thesis
    using assms(2) by blast
qed

lemma check_categorize: "check (categorize cat x) = check x"
  by (simp add: categorize_def)

lemma verify_document_checks:
  assumes "disableCertificateChainValidation options"
    and "a \<in> set (snd (verify_document V E options (buildCallback (Some collect)) d []))"
  shows "check a \<noteq> ''Issuer certificate must be valid''"
proof (cases "issuerSigned d")
  case None
  have "verify_document V E options (buildCallback (Some collect)) d []
      = (Some (TypeError ''issuerAuth''), [])"
    unfolding verify_document_def by (simp add: None)
  then show ?thesis using assms(2) by simp
next
  case (Some isd)
  have flag: "disableCertificateChainValidation options = True"
    using assms(1) by simp
  from verify_document_delivered [OF Some assms(2)]
  consider
    (issuer) "a \<in> categorize ISSUER_AUTH ` set (emitted (verifyIssuerSignature_events V E (issuerAuth isd) True))"
  | (device) "a \<in> categorize DEVICE_AUTH ` set (emitted (verifyDeviceSignature_events E d
              (ephemeralReaderKey options) (encodedSessionTranscript options)))"
  | (data) "a \<in> set (snd (verifyData E d (buildCallback (Some collect)) []))"
    unfolding flag by blast
  then show ?thesis
  proof cases
    case issuer
    then obtain x where a: "a = categorize ISSUER_AUTH x"
      and x: "x \<in> set (emitted (verifyIssuerSignature_events V E (issuerAuth isd) True))"
      by blast
    have "check x \<noteq> ''Issuer certificate must be valid''"
      using emitted_subset [OF x] issuer_events_disabled by blast
    then show ?thesis
      unfolding a check_categorize .
  next
    case device
    then obtain x where a: "a = categorize DEVICE_AUTH x"
      and x: "x \<in> set (emitted (verifyDeviceSignature_events E d
              (ephemeralReaderKey options) (encodedSessionTranscript options)))"
      by blast
    have "check x \<noteq> ''Issuer certificate must be valid''"
      using emitted_subset [OF x] device_events_checks by blast
    then show ?thesis
      unfolding a check_categorize .
  next
    case data
    then show ?thesis
      by (rule verifyData_checks)
  qed
qed

lemma verify_documents_checks:
  assumes "disableCertificateChainValidation options"
    and "a \<in> set (snd (verify_documents V E options (buildCallback (Some collect)) ds []))"
  shows "check a \<noteq> ''Issuer certificate must be valid''"
  using assms(2)
proof (induction ds)
  case Nil
  then show ?case by simp
next
  case (Cons d ds)
  let ?one = "verify_document V E options (buildCallback (Some collect)) d []"
  have "verify_documents V E options (buildCallback (Some collect)) (d # ds) []
      = andThen ?one (verify_documents V E options (buildCallback (Some collect)) ds)"
    by simp
  show ?case
  proof (cases "fst ?one")
    case (Some e)
    then have "a \<in> set (snd ?one)"
      using Cons.prems by (simp add: andThen_raised)
    then show ?thesis
      by (rule verify_document_checks [OF assms(1)])
  next
    case None
    have "verify_documents V E options (buildCallback (Some collect)) (d # ds) []
        = verify_documents V E options (buildCallback (Some collect)) ds (snd ?one)"
      using None by (simp add: andThen_returned)
    also have "\<dots> = (fst (verify_documents V E options (buildCallback (Some collect)) ds []),
        snd ?one @ snd (verify_documents V E options (buildCallback (Some collect)) ds []))"
      by (rule verify_documents_collect_append)
    finally have "a \<in> set (snd ?one)
        \<or> a \<in> set (snd (verify_documents V E options (buildCallback (Some collect)) ds []))"
      using Cons.prems by auto
    then show ?thesis
      using Cons.IH verify_document_checks [OF assms(1)] by blast
  qed
qed

lemma issuer_events_signature:
  "\<lparr>status = (if (\<exists>c. certificate ia = Some c
                        \<and> sign1Verify E ia (importX509 E (pem c) (algName ia)))
                then PASSED else FAILED),
     check = ''Issuer signature must be valid'',
     reason = None\<rparr> \<in> set (emitted (verifyIssuerSignature_events V E ia d))"
proof -
  let ?chain = "if \<not> d
             then (case verifyX509Chain E ia (issuersRootCertificates V) of
                     None \<Rightarrow>
                       [Attempt \<lparr>status = PASSED,
                                 check = ''Issuer certificate must be valid'',
                                 reason = None\<rparr>
                          (\<lambda>thrown. \<lparr>status = FAILED,
                                      check = ''Issuer certificate must be valid'',
                                      reason = Some thrown\<rparr>)]
                   | Some thrown \<Rightarrow>
                       [Emit \<lparr>status = FAILED,
                              check = ''Issuer certificate must be valid'',
                              reason = Some thrown\<rparr>])
             else []"
  have chain: "raised ?chain = None"
    by (simp split: option.splits)
  have "\<exists>rest. verifyIssuerSignature_events V E ia d
      = ?chain @ Emit \<lparr>status = (if (\<exists>c. certificate ia = Some c
                        \<and> sign1Verify E ia (importX509 E (pem c) (algName ia)))
                then PASSED else FAILED),
     check = ''Issuer signature must be valid'',
     reason = None\<rparr> # rest"
    by (cases "certificate ia")
       (simp_all add: verifyIssuerSignature_events_def Let_def split del: if_split)
  then obtain rest where "verifyIssuerSignature_events V E ia d
      = ?chain @ Emit \<lparr>status = (if (\<exists>c. certificate ia = Some c
                        \<and> sign1Verify E ia (importX509 E (pem c) (algName ia)))
                then PASSED else FAILED),
     check = ''Issuer signature must be valid'',
     reason = None\<rparr> # rest"
    by blast
  then show ?thesis
    using chain by (simp only: emitted_after emitted.simps) simp
qed

text \<open>
  Claim C8.  When \<open>disableCertificateChainValidation\<close> is set, no assessment that the
  callback receives from \<open>verify\<close> has the check "Issuer certificate must be valid".
  Whatever the option, for every document that \<open>verify\<close> reaches the callback receives
  the assessment "Issuer signature must be valid" of the category ISSUER_AUTH: it is
  PASSED exactly when there is a leaf certificate and the COSE_Sign1 signature verifies
  under its key.
\<close>

theorem verify_chain_validation_disabled:
  "(disableCertificateChainValidation options \<longrightarrow>
      (\<forall>a \<in> set (snd (verify V E dr (options\<lparr>onCheck := Some collect\<rparr>) [])).
         check a \<noteq> ''Issuer certificate must be valid''))
   \<and> (documents dr = pre @ d # post
        \<and> fst (verify V E (dr\<lparr>documents := pre\<rparr>) (options\<lparr>onCheck := Some collect\<rparr>) []) = None
        \<and> issuerSigned d = Some isd \<longrightarrow>
      \<lparr>status = (if (\<exists>c. certificate (issuerAuth isd) = Some c
                         \<and> sign1Verify E (issuerAuth isd)
                               (importX509 E (pem c) (algName (issuerAuth isd))))
                 then PASSED else FAILED),
       check = ''Issuer signature must be valid'',
       reason = None,
       category = ISSUER_AUTH\<rparr>
        \<in> set (snd (verify V E dr (options\<lparr>onCheck := Some collect\<rparr>) [])))"
proof (intro conjI impI ballI)
  fix a
  assume flag: "disableCertificateChainValidation options"
    and a: "a \<in> set (snd (verify V E dr (options\<lparr>onCheck := Some collect\<rparr>) []))"
  have "a \<in> set (emitted (verify_format_events E dr))
      \<or> a \<in> set (snd (verify_documents V E options (buildCallback (Some collect))
                          (documents dr) []))"
  proof (cases "raised (verify_format_events E dr)")
    case None
    then show ?thesis
      using a unfolding verify_collect [OF None] by auto
  next
    case (Some e)
    then show ?thesis
      using a unfolding verify_collect_format by (simp add: andThen_def)
  qed
  then consider
    (format) "a \<in> set (emitted (verify_format_events E dr))"
  | (document) "a \<in> set (snd (verify_documents V E options (buildCallback (Some collect))
                                 (documents dr) []))"
    by blast
  then show "check a \<noteq> ''Issuer certificate must be valid''"
  proof cases
    case format
    then show ?thesis
      by (auto simp: verify_format_events_def split: sum.splits split del: if_split)
  next
    case document
    then show ?thesis
      by (rule verify_documents_checks [OF flag])
  qed
next
  assume reach: "documents dr = pre @ d # post
        \<and> fst (verify V E (dr\<lparr>documents := pre\<rparr>) (options\<lparr>onCheck := Some collect\<rparr>) []) = None
        \<and> issuerSigned d = Some isd"
  have "categorize ISSUER_AUTH
          \<lparr>status = (if (\<exists>c. certificate (issuerAuth isd) = Some c
                         \<and> sign1Verify E (issuerAuth isd)
                               (importX509 E (pem c) (algName (issuerAuth isd))))
                 then PASSED else FAILED),
           check = ''Issuer signature must be valid'',
           reason = None\<rparr>
      \<in> set (snd (verify_document V E options (buildCallback (Some collect)) d []))"
    using reach issuer_events_signature verify_document_issuer_assessments by blast
  then have "categorize ISSUER_AUTH
          \<lparr>status = (if (\<exists>c. certificate (issuerAuth isd) = Some c
                         \<and> sign1Verify E (issuerAuth isd)
                               (importX509 E (pem c) (algName (issuerAuth isd))))
                 then PASSED else FAILED),
           check = ''Issuer signature must be valid'',
           reason = None\<rparr>
      \<in> set (snd (verify V E dr (options\<lparr>onCheck := Some collect\<rparr>) []))"
    using reach verify_reaches_document by blast
  then show "\<lparr>status = (if (\<exists>c. certificate (issuerAuth isd) = Some c
                         \<and> sign1Verify E (issuerAuth isd)
                               (importX509 E (pem c) (algName (issuerAuth isd))))
                 then PASSED else FAILED),
       check = ''Issuer signature must be valid'',
       reason = None,
       category = ISSUER_AUTH\<rparr>
        \<in> set (snd (verify V E dr (options\<lparr>onCheck := Some collect\<rparr>) []))"
    by (simp add: categorize_def split del: if_split)
qed

theorem verify_chain_validation_disabled_witness:
  "filter (\<lambda>a. check a = ''Issuer certificate must be valid'')
     (snd (verify example_Verifier example_env example_MDoc
             (example_options\<lparr>disableCertificateChainValidation := True,
                              onCheck := Some collect\<rparr>) [])) = []
   \<and> \<lparr>status = PASSED, check = ''Issuer signature must be valid'', reason = None,
       category = ISSUER_AUTH\<rparr>
        \<in> set (snd (verify example_Verifier example_env example_MDoc
             (example_options\<lparr>disableCertificateChainValidation := True,
                              onCheck := Some collect\<rparr>) []))"
proof -
  let ?options = "example_options\<lparr>disableCertificateChainValidation := True\<rparr>
                    :: (VerificationAssessment list) VerifyOptions"
  have 1: "disableCertificateChainValidation ?options"
    by simp
  have 2: "documents example_MDoc = [] @ example_Document # []"
    by (simp add: example_MDoc_def)
  have 3: "fst (verify example_Verifier example_env (example_MDoc\<lparr>documents := []\<rparr>)
                 (?options\<lparr>onCheck := Some collect\<rparr>) []) = None"
    by (simp add: example_defs verifier_defs)
  have 4: "issuerSigned example_Document = Some example_IssuerSigned"
    by (simp add: example_Document_def)
  have 5: "\<exists>c. certificate (issuerAuth example_IssuerSigned) = Some c
             \<and> sign1Verify example_env (issuerAuth example_IssuerSigned)
                  (importX509 example_env (pem c) (algName (issuerAuth example_IssuerSigned)))"
    by (simp add: example_defs certificate_def)
  show ?thesis
    using verify_chain_validation_disabled
      [of ?options example_Verifier example_env example_MDoc "[]" example_Document "[]"
          example_IssuerSigned] 1 2 3 4 5
    by (simp add: filter_empty_conv)
qed

section \<open>The MAC path of device authentication\<close>

lemma issuer_events_return:
  assumes "certificate ia = Some c" and "validityInfo (decodedPayload ia) = Some vi"
  shows "raised (verifyIssuerSignature_events V E ia d) = None"
  by (cases d; cases "verifyX509Chain E ia (issuersRootCertificates V)")
     (simp_all add: verifyIssuerSignature_events_def assms Let_def split del: if_split)

lemma verify_document_device_assessments:
  assumes "issuerSigned d = Some isd"
    and "raised (verifyIssuerSignature_events V E (issuerAuth isd)
                   (disableCertificateChainValidation options)) = None"
    and "x \<in> set (emitted (verifyDeviceSignature_events E d
                   (ephemeralReaderKey options) (encodedSessionTranscript options)))"
  shows "categorize DEVICE_AUTH x
           \<in> set (snd (verify_document V E options (buildCallback (Some collect)) d []))"
proof -
  let ?issuer = "verifyIssuerSignature_events V E (issuerAuth isd)
              (disableCertificateChainValidation options)"
  let ?device = "verifyDeviceSignature_events E d
              (ephemeralReaderKey options) (encodedSessionTranscript options)"
  let ?data = "verifyData E d (buildCallback (Some collect)) []"
  have "snd (verify_document V E options (buildCallback (Some collect)) d []) =
     (if raised ?device \<noteq> None
        then map (categorize ISSUER_AUTH) (emitted ?issuer)
               @ map (categorize DEVICE_AUTH) (emitted ?device)
        else map (categorize ISSUER_AUTH) (emitted ?issuer)
               @ map (categorize DEVICE_AUTH) (emitted ?device) @ snd ?data)"
    unfolding verify_document_collect [OF assms(1)] Let_def
    by (simp split del: if_split add: assms(2) if_distrib [of snd] cong: if_cong)
  then show ?thesis
    using assms(3) by (cases "raised ?device") auto
qed

text \<open>
  The events of the MAC path: a device part with a MAC and no signature, a session
  transcript and a device key.
\<close>

lemma device_events_mac_path:
  assumes "issuerSigned d = Some isd" and "deviceSigned d = Some ds"
    and "deviceSignature (deviceAuth ds) = None" and "deviceMac (deviceAuth ds) = Some mac"
    and "deviceKeyInfo (decodedPayload (issuerAuth isd)) = Some info"
    and "deviceKey info = Some dk"
  shows "verifyDeviceSignature_events E d k (Some stb) =
      Emit \<lparr>status = PASSED,
            check = ''Device MAC must be present when using MAC authentication'',
            reason = None\<rparr> #
      (if \<not> hasSupportedAlg mac
       then [Emit \<lparr>status = FAILED,
                   check = ''Device MAC must use alg 5 (HMAC 256/256)'',
                   reason = None\<rparr>]
       else
         Emit \<lparr>status = PASSED,
               check = ''Device MAC must use alg 5 (HMAC 256/256)'',
               reason = None\<rparr> #
         (case k of
            None \<Rightarrow>
              [Emit \<lparr>status = FAILED,
                     check = ''Ephemeral private key must be present when using MAC authentication'',
                     reason = None\<rparr>]
          | Some ek \<Rightarrow>
              [Emit \<lparr>status = PASSED,
                     check = ''Ephemeral private key must be present when using MAC authentication'',
                     reason = None\<rparr>,
               (case deviceMacVerify E ek dk stb mac
                       (calculateDeviceAutenticationBytes E stb (docType d)
                          (DeviceSigned.nameSpaces ds)) of
                  Inr ok \<Rightarrow>
                    Attempt \<lparr>status = (if ok then PASSED else FAILED),
                             check = ''Device MAC must be valid'',
                             reason = None\<rparr>
                      (\<lambda>thrown.
                         \<lparr>status = FAILED,
                          check = ''Device MAC must be valid'',
                          reason = Some (''Unable to verify deviceAuth MAC: ''
                                         @ thrown)\<rparr>)
                | Inl thrown \<Rightarrow>
                    Emit \<lparr>status = FAILED,
                          check = ''Device MAC must be valid'',
                          reason = Some (''Unable to verify deviceAuth MAC: ''
                                         @ thrown)\<rparr>)]))"
  unfolding verifyDeviceSignature_events_def Let_def
  by (simp add: assms split del: if_split)

text \<open>
  Claim C6.  On the MAC path (a MAC and no signature in \<open>deviceAuth\<close>, the session
  transcript among the options, a device key in the MSO), with the collecting callback:
  \<^item> with a supported algorithm and no ephemeral reader key, \<open>verifyDeviceSignature\<close>
    delivers three assessments and returns; the last one is FAILED and its check names
    the missing ephemeral private key; no assessment of the MAC tag follows;
  \<^item> with an algorithm other than 5 it delivers the assessment that the MAC is present
    and a FAILED assessment of the check on the algorithm, and returns;
  \<^item> when \<open>verify\<close> reaches the document and its issuer step returns (the issuerAuth has
    a leaf certificate and a \<open>validityInfo\<close>), the callback of \<open>verify\<close> receives that
    FAILED assessment.
\<close>

theorem verifyDeviceSignature_mac_path:
  assumes "issuerSigned d = Some isd" and "deviceSigned d = Some ds"
    and "deviceSignature (deviceAuth ds) = None" and "deviceMac (deviceAuth ds) = Some mac"
    and "deviceKeyInfo (decodedPayload (issuerAuth isd)) = Some info"
    and "deviceKey info = Some dk"
    and "encodedSessionTranscript options = Some stb"
  shows "(hasSupportedAlg mac \<and> ephemeralReaderKey options = None \<longrightarrow>
            verifyDeviceSignature E d
              \<lparr>ephemeralPrivateKey = ephemeralReaderKey options,
               sessionTranscriptBytes = encodedSessionTranscript options,
               DeviceVerifyOptions.onCheck = buildCallback (Some collect)\<rparr> st
            = (None, st @
                [\<lparr>status = PASSED,
                  check = ''Device MAC must be present when using MAC authentication'',
                  reason = None, category = DEVICE_AUTH\<rparr>,
                 \<lparr>status = PASSED,
                  check = ''Device MAC must use alg 5 (HMAC 256/256)'',
                  reason = None, category = DEVICE_AUTH\<rparr>,
                 \<lparr>status = FAILED,
                  check = ''Ephemeral private key must be present when using MAC authentication'',
                  reason = None, category = DEVICE_AUTH\<rparr>]))
       \<and> (alg mac \<noteq> 5 \<longrightarrow>
            verifyDeviceSignature E d
              \<lparr>ephemeralPrivateKey = ephemeralReaderKey options,
               sessionTranscriptBytes = encodedSessionTranscript options,
               DeviceVerifyOptions.onCheck = buildCallback (Some collect)\<rparr> st
            = (None, st @
                [\<lparr>status = PASSED,
                  check = ''Device MAC must be present when using MAC authentication'',
                  reason = None, category = DEVICE_AUTH\<rparr>,
                 \<lparr>status = FAILED,
                  check = ''Device MAC must use alg 5 (HMAC 256/256)'',
                  reason = None, category = DEVICE_AUTH\<rparr>]))
       \<and> (documents dr = pre @ d # post
            \<and> fst (verify V E (dr\<lparr>documents := pre\<rparr>) (options\<lparr>onCheck := Some collect\<rparr>) []) = None
            \<and> certificate (issuerAuth isd) \<noteq> None
            \<and> validityInfo (decodedPayload (issuerAuth isd)) \<noteq> None \<longrightarrow>
              (hasSupportedAlg mac \<and> ephemeralReaderKey options = None \<longrightarrow>
                 \<lparr>status = FAILED,
                  check = ''Ephemeral private key must be present when using MAC authentication'',
                  reason = None, category = DEVICE_AUTH\<rparr>
                   \<in> set (snd (verify V E dr (options\<lparr>onCheck := Some collect\<rparr>) [])))
              \<and> (alg mac \<noteq> 5 \<longrightarrow>
                 \<lparr>status = FAILED,
                  check = ''Device MAC must use alg 5 (HMAC 256/256)'',
                  reason = None, category = DEVICE_AUTH\<rparr>
                   \<in> set (snd (verify V E dr (options\<lparr>onCheck := Some collect\<rparr>) []))))"
proof -
  note events = device_events_mac_path [OF assms(1-6), of E "ephemeralReaderKey options" stb]
  have first: "hasSupportedAlg mac \<and> ephemeralReaderKey options = None \<longrightarrow>
            verifyDeviceSignature E d
              \<lparr>ephemeralPrivateKey = ephemeralReaderKey options,
               sessionTranscriptBytes = encodedSessionTranscript options,
               DeviceVerifyOptions.onCheck = buildCallback (Some collect)\<rparr> st
            = (None, st @
                [\<lparr>status = PASSED,
                  check = ''Device MAC must be present when using MAC authentication'',
                  reason = None, category = DEVICE_AUTH\<rparr>,
                 \<lparr>status = PASSED,
                  check = ''Device MAC must use alg 5 (HMAC 256/256)'',
                  reason = None, category = DEVICE_AUTH\<rparr>,
                 \<lparr>status = FAILED,
                  check = ''Ephemeral private key must be present when using MAC authentication'',
                  reason = None, category = DEVICE_AUTH\<rparr>])"
    unfolding verifyDeviceSignature_collect assms(7) events
    by (simp add: categorize_def)
  have second: "alg mac \<noteq> 5 \<longrightarrow>
            verifyDeviceSignature E d
              \<lparr>ephemeralPrivateKey = ephemeralReaderKey options,
               sessionTranscriptBytes = encodedSessionTranscript options,
               DeviceVerifyOptions.onCheck = buildCallback (Some collect)\<rparr> st
            = (None, st @
                [\<lparr>status = PASSED,
                  check = ''Device MAC must be present when using MAC authentication'',
                  reason = None, category = DEVICE_AUTH\<rparr>,
                 \<lparr>status = FAILED,
                  check = ''Device MAC must use alg 5 (HMAC 256/256)'',
                  reason = None, category = DEVICE_AUTH\<rparr>])"
    unfolding verifyDeviceSignature_collect assms(7) events
    by (simp add: categorize_def hasSupportedAlg_def)
  have third: "\<lparr>status = FAILED,
                  check = ''Ephemeral private key must be present when using MAC authentication'',
                  reason = None, category = DEVICE_AUTH\<rparr>
                   \<in> set (snd (verify V E dr (options\<lparr>onCheck := Some collect\<rparr>) []))"
    if reach: "documents dr = pre @ d # post"
        "fst (verify V E (dr\<lparr>documents := pre\<rparr>) (options\<lparr>onCheck := Some collect\<rparr>) []) = None"
      and issuer: "certificate (issuerAuth isd) \<noteq> None"
        "validityInfo (decodedPayload (issuerAuth isd)) \<noteq> None"
      and path: "hasSupportedAlg mac" "ephemeralReaderKey options = None"
  proof -
    have ret: "raised (verifyIssuerSignature_events V E (issuerAuth isd)
                   (disableCertificateChainValidation options)) = None"
      using issuer issuer_events_return by blast
    have "\<lparr>status = FAILED,
            check = ''Ephemeral private key must be present when using MAC authentication'',
            reason = None\<rparr>
        \<in> set (emitted (verifyDeviceSignature_events E d
                   (ephemeralReaderKey options) (encodedSessionTranscript options)))"
      unfolding assms(7) events by (simp add: path)
    from verify_document_device_assessments [OF assms(1) ret this]
    show ?thesis
      using verify_reaches_document [OF reach] by (simp add: categorize_def)
  qed
  have fourth: "\<lparr>status = FAILED,
                  check = ''Device MAC must use alg 5 (HMAC 256/256)'',
                  reason = None, category = DEVICE_AUTH\<rparr>
                   \<in> set (snd (verify V E dr (options\<lparr>onCheck := Some collect\<rparr>) []))"
    if reach: "documents dr = pre @ d # post"
        "fst (verify V E (dr\<lparr>documents := pre\<rparr>) (options\<lparr>onCheck := Some collect\<rparr>) []) = None"
      and issuer: "certificate (issuerAuth isd) \<noteq> None"
        "validityInfo (decodedPayload (issuerAuth isd)) \<noteq> None"
      and path: "alg mac \<noteq> 5"
  proof -
    have ret: "raised (verifyIssuerSignature_events V E (issuerAuth isd)
                   (disableCertificateChainValidation options)) = None"
      using issuer issuer_events_return by blast
    have "\<lparr>status = FAILED,
            check = ''Device MAC must use alg 5 (HMAC 256/256)'',
            reason = None\<rparr>
        \<in> set (emitted (verifyDeviceSignature_events E d
                   (ephemeralReaderKey options) (encodedSessionTranscript options)))"
      unfolding assms(7) events by (simp add: path hasSupportedAlg_def)
    from verify_document_device_assessments [OF assms(1) ret this]
    show ?thesis
      using verify_reaches_document [OF reach] by (simp add: categorize_def)
  qed
  show ?thesis
    using first second third fourth by blast
qed

theorem verifyDeviceSignature_mac_path_witness:
  "verifyDeviceSignature example_env mac_Document
     \<lparr>ephemeralPrivateKey = None, sessionTranscriptBytes = Some [1],
      DeviceVerifyOptions.onCheck = buildCallback (Some collect)\<rparr> []
   = (None,
      [\<lparr>status = PASSED,
        check = ''Device MAC must be present when using MAC authentication'',
        reason = None, category = DEVICE_AUTH\<rparr>,
       \<lparr>status = PASSED,
        check = ''Device MAC must use alg 5 (HMAC 256/256)'',
        reason = None, category = DEVICE_AUTH\<rparr>,
       \<lparr>status = FAILED,
        check = ''Ephemeral private key must be present when using MAC authentication'',
        reason = None, category = DEVICE_AUTH\<rparr>])
   \<and> \<lparr>status = FAILED,
       check = ''Ephemeral private key must be present when using MAC authentication'',
       reason = None, category = DEVICE_AUTH\<rparr>
        \<in> set (snd (verify example_Verifier example_env mac_MDoc
                       (example_options\<lparr>onCheck := Some collect\<rparr>) []))
   \<and> verifyDeviceSignature example_env mac6_Document
     \<lparr>ephemeralPrivateKey = None, sessionTranscriptBytes = Some [1],
      DeviceVerifyOptions.onCheck = buildCallback (Some collect)\<rparr> []
   = (None,
      [\<lparr>status = PASSED,
        check = ''Device MAC must be present when using MAC authentication'',
        reason = None, category = DEVICE_AUTH\<rparr>,
       \<lparr>status = FAILED,
        check = ''Device MAC must use alg 5 (HMAC 256/256)'',
        reason = None, category = DEVICE_AUTH\<rparr>])"
proof -
  let ?options = "example_options :: (VerificationAssessment list) VerifyOptions"
  let ?ds = "\<lparr>DeviceSigned.nameSpaces = [],
             deviceAuth = \<lparr>deviceSignature = None, deviceMac = Some example_COSEMac0\<rparr>\<rparr>"
  let ?ds6 = "\<lparr>DeviceSigned.nameSpaces = [],
             deviceAuth = \<lparr>deviceSignature = None,
                           deviceMac = Some (example_COSEMac0\<lparr>alg := 6\<rparr>)\<rparr>\<rparr>"
  have i: "issuerSigned mac_Document = Some example_IssuerSigned"
      "issuerSigned mac6_Document = Some example_IssuerSigned"
    by (simp_all add: mac_Document_def mac6_Document_def example_Document_def)
  have d: "deviceSigned mac_Document = Some ?ds" "deviceSigned mac6_Document = Some ?ds6"
    by (simp_all add: mac_Document_def mac6_Document_def)
  have s: "deviceSignature (deviceAuth ?ds) = None" "deviceSignature (deviceAuth ?ds6) = None"
    by simp_all
  have m: "deviceMac (deviceAuth ?ds) = Some example_COSEMac0"
      "deviceMac (deviceAuth ?ds6) = Some (example_COSEMac0\<lparr>alg := 6\<rparr>)"
    by simp_all
  have k: "deviceKeyInfo (decodedPayload (issuerAuth example_IssuerSigned))
             = Some \<lparr>deviceKey = Some [9]\<rparr>"
    by (simp add: example_IssuerSigned_def example_IssuerAuth_def example_MSO_def)
  have k': "deviceKey \<lparr>deviceKey = Some [9]\<rparr> = Some [9]"
    by simp
  have t: "encodedSessionTranscript ?options = Some [1]"
    by (simp add: example_options_def)
  have e: "ephemeralReaderKey ?options = None"
    by (simp add: example_options_def)
  have a: "hasSupportedAlg example_COSEMac0" "alg (example_COSEMac0\<lparr>alg := 6\<rparr>) \<noteq> 5"
    by (simp_all add: hasSupportedAlg_def example_COSEMac0_def)
  have r: "documents mac_MDoc = [] @ mac_Document # []"
    by (simp add: mac_MDoc_def)
  have r': "fst (verify example_Verifier example_env (mac_MDoc\<lparr>documents := []\<rparr>)
                  (?options\<lparr>onCheck := Some collect\<rparr>) []) = None"
    by (simp add: example_defs verifier_defs)
  have c: "certificate (issuerAuth example_IssuerSigned) \<noteq> None"
      "validityInfo (decodedPayload (issuerAuth example_IssuerSigned)) \<noteq> None"
    by (simp_all add: example_defs certificate_def)
  show ?thesis
    using verifyDeviceSignature_mac_path
        [OF i(1) d(1) s(1) m(1) k k' t,
         of example_env "[]" mac_MDoc "[]" "[]" example_Verifier]
      verifyDeviceSignature_mac_path
        [OF i(2) d(2) s(2) m(2) k k' t,
         of example_env "[]" mac_MDoc "[]" "[]" example_Verifier]
      e t a r r' c
    by simp
qed

section \<open>One device proof\<close>

lemma verify_documents_collect_Cons:
  "verify_documents V E options (buildCallback (Some collect)) (d # ds) []
     = (if fst (verify_document V E options (buildCallback (Some collect)) d []) \<noteq> None
        then fst (verify_document V E options (buildCallback (Some collect)) d [])
        else fst (verify_documents V E options (buildCallback (Some collect)) ds []),
        if fst (verify_document V E options (buildCallback (Some collect)) d []) \<noteq> None
        then snd (verify_document V E options (buildCallback (Some collect)) d [])
        else snd (verify_document V E options (buildCallback (Some collect)) d [])
               @ snd (verify_documents V E options (buildCallback (Some collect)) ds []))"
proof (cases "fst (verify_document V E options (buildCallback (Some collect)) d [])")
  case (Some e)
  then show ?thesis
    by (simp add: andThen_raised prod_eq_iff)
next
  case None
  then show ?thesis
    using verify_documents_collect_append
      [of V E options ds "snd (verify_document V E options (buildCallback (Some collect)) d [])"]
    by (simp add: andThen_returned)
qed

text \<open>
  When \<open>verify\<close> returns, every document went through the loop body, and the callback
  received what the body delivers for it.
\<close>

lemma verify_documents_complete:
  assumes "fst (verify_documents V E options (buildCallback (Some collect)) ds []) = None"
    and "d \<in> set ds"
  shows "fst (verify_document V E options (buildCallback (Some collect)) d []) = None
       \<and> set (snd (verify_document V E options (buildCallback (Some collect)) d []))
           \<subseteq> set (snd (verify_documents V E options (buildCallback (Some collect)) ds []))"
  using assms
proof (induction ds)
  case Nil
  then show ?case by simp
next
  case (Cons x xs)
  have one: "fst (verify_document V E options (buildCallback (Some collect)) x []) = None"
    using Cons.prems(1) unfolding verify_documents_collect_Cons
    by (cases "fst (verify_document V E options (buildCallback (Some collect)) x [])") simp_all
  then have more: "fst (verify_documents V E options (buildCallback (Some collect)) xs []) = None"
    using Cons.prems(1) unfolding verify_documents_collect_Cons by simp
  show ?case
  proof (cases "d = x")
    case True
    then show ?thesis
      unfolding verify_documents_collect_Cons using one by simp
  next
    case False
    then have "d \<in> set xs"
      using Cons.prems(2) by simp
    from Cons.IH [OF more this] show ?thesis
      unfolding verify_documents_collect_Cons using one by auto
  qed
qed

lemma device_events_without_proof:
  assumes "deviceSigned d = None
           \<or> (\<exists>ds. deviceSigned d = Some ds \<and> issuerSigned d \<noteq> None
                  \<and> deviceSignature (deviceAuth ds) = None \<and> deviceMac (deviceAuth ds) = None)"
  shows "\<exists>c. verifyDeviceSignature_events E d k t
               = [Emit \<lparr>status = FAILED, check = c, reason = None\<rparr>]"
  using assms by (auto simp: verifyDeviceSignature_events_def)

lemma verify_document_returns:
  assumes "fst (verify_document V E options (buildCallback (Some collect)) d []) = None"
  shows "issuerSigned d \<noteq> None
       \<and> categorize DEVICE_AUTH
            ` set (emitted (verifyDeviceSignature_events E d
                     (ephemeralReaderKey options) (encodedSessionTranscript options)))
          \<subseteq> set (snd (verify_document V E options (buildCallback (Some collect)) d []))"
proof (cases "issuerSigned d")
  case None
  then show ?thesis
    using assms by (simp add: verify_document_def)
next
  case (Some isd)
  let ?issuer = "verifyIssuerSignature_events V E (issuerAuth isd)
              (disableCertificateChainValidation options)"
  have ret: "raised ?issuer = None"
    using assms unfolding verify_document_collect [OF Some] Let_def
    by (cases "raised ?issuer") simp_all
  show ?thesis
    using verify_document_device_assessments [OF Some ret] Some by auto
qed

text \<open>
  Claim C2 as amended.  A response is accepted when \<open>verify\<close>, run with a callback that
  collects the assessments, returns and none of the assessments is FAILED.  Every document
  of an accepted response carries a deviceSignature or a deviceMac in its deviceAuth.  A
  document that carries both is verified through its deviceSignature alone:
  \<open>verifyDeviceSignature\<close> returns at the end of the signature branch, so that it does for
  the document what it does for the same document without the deviceMac.
\<close>

theorem verify_device_proof_present:
  "(fst (verify V E dr (options\<lparr>onCheck := Some collect\<rparr>) []) = None
      \<and> (\<forall>a \<in> set (snd (verify V E dr (options\<lparr>onCheck := Some collect\<rparr>) [])).
             status a \<noteq> FAILED)
      \<longrightarrow> (\<forall>d \<in> set (documents dr). \<exists>ds. deviceSigned d = Some ds
             \<and> \<not> (deviceSignature (deviceAuth ds) = None \<and> deviceMac (deviceAuth ds) = None)))
   \<and> (deviceSigned d = Some ds \<and> deviceSignature (deviceAuth ds) \<noteq> None
      \<longrightarrow> verifyDeviceSignature_events E d k t
          = verifyDeviceSignature_events E
              (d\<lparr>deviceSigned := Some (ds\<lparr>deviceAuth := (deviceAuth ds)\<lparr>deviceMac := None\<rparr>\<rparr>)\<rparr>) k t)"
proof (intro conjI impI ballI)
  fix x
  assume accepted: "fst (verify V E dr (options\<lparr>onCheck := Some collect\<rparr>) []) = None
      \<and> (\<forall>a \<in> set (snd (verify V E dr (options\<lparr>onCheck := Some collect\<rparr>) [])).
             status a \<noteq> FAILED)"
    and member: "x \<in> set (documents dr)"
  let ?cb = "buildCallback (Some collect) :: VerificationAssessment list VerificationCallback"
  have format: "raised (verify_format_events E dr) = None"
    using accepted verify_collect_returns by blast
  have returns: "fst (verify_documents V E options ?cb (documents dr) []) = None"
    using accepted unfolding verify_collect [OF format] by simp
  have passed: "\<forall>a \<in> set (snd (verify_documents V E options ?cb (documents dr) [])).
                  status a \<noteq> FAILED"
    using accepted unfolding verify_collect [OF format] by simp
  from verify_documents_complete [OF returns member]
  have one: "fst (verify_document V E options ?cb x []) = None"
    and sub: "set (snd (verify_document V E options ?cb x []))
                \<subseteq> set (snd (verify_documents V E options ?cb (documents dr) []))"
    by simp_all
  from verify_document_returns [OF one]
  have signed: "issuerSigned x \<noteq> None"
    and device: "categorize DEVICE_AUTH
            ` set (emitted (verifyDeviceSignature_events E x
                     (ephemeralReaderKey options) (encodedSessionTranscript options)))
          \<subseteq> set (snd (verify_document V E options ?cb x []))"
    by simp_all
  show "\<exists>ds. deviceSigned x = Some ds
          \<and> \<not> (deviceSignature (deviceAuth ds) = None \<and> deviceMac (deviceAuth ds) = None)"
  proof (rule ccontr)
    assume "\<not> ?thesis"
    then have "deviceSigned x = None
           \<or> (\<exists>ds. deviceSigned x = Some ds \<and> issuerSigned x \<noteq> None
                  \<and> deviceSignature (deviceAuth ds) = None \<and> deviceMac (deviceAuth ds) = None)"
      using signed by (cases "deviceSigned x") auto
    from device_events_without_proof [OF this]
    obtain c where "verifyDeviceSignature_events E x
                      (ephemeralReaderKey options) (encodedSessionTranscript options)
                    = [Emit \<lparr>status = FAILED, check = c, reason = None\<rparr>]"
      by blast
    then have "categorize DEVICE_AUTH \<lparr>status = FAILED, check = c, reason = None\<rparr>
                 \<in> set (snd (verify_document V E options ?cb x []))"
      using device by simp
    then have "categorize DEVICE_AUTH \<lparr>status = FAILED, check = c, reason = None\<rparr>
                 \<in> set (snd (verify_documents V E options ?cb (documents dr) []))"
      using sub by blast
    then show False
      using passed by (auto simp: categorize_def)
  qed
next
  assume "deviceSigned d = Some ds \<and> deviceSignature (deviceAuth ds) \<noteq> None"
  then show "verifyDeviceSignature_events E d k t
          = verifyDeviceSignature_events E
              (d\<lparr>deviceSigned := Some (ds\<lparr>deviceAuth := (deviceAuth ds)\<lparr>deviceMac := None\<rparr>\<rparr>)\<rparr>) k t"
    by (cases "issuerSigned d")
      (auto simp: verifyDeviceSignature_events_def Let_def split: option.splits)
qed

theorem verify_device_proof_present_witness:
  "fst (verify example_Verifier example_env both_MDoc
          (example_options\<lparr>onCheck := Some collect\<rparr>) []) = None
   \<and> (\<exists>ds. deviceSigned both_Document = Some ds
          \<and> \<not> (deviceSignature (deviceAuth ds) = None \<and> deviceMac (deviceAuth ds) = None))
   \<and> verifyDeviceSignature_events example_env both_Document None (Some [1])
       = verifyDeviceSignature_events example_env example_Document None (Some [1])"
  using verify_device_proof_present
    [of example_Verifier example_env both_MDoc example_options
        both_Document "the (deviceSigned both_Document)" None "Some [1]"]
  by (simp add: example_defs verifier_defs digestCheck_def countryCheck_def jurisdictionCheck_def)

text \<open>
  Claim C2 as the specification states it does not hold: the response below has one
  document whose deviceAuth carries a deviceSignature and a deviceMac, \<open>verify\<close> accepts it
  with the default callback, and no assessment it delivers is FAILED.
\<close>

theorem verify_device_proof_present_counterexample:
  "fst (verify example_Verifier example_env both_MDoc
          (example_options\<lparr>onCheck := None\<rparr>) ([] :: VerificationAssessment list)) = None
   \<and> fst (verify example_Verifier example_env both_MDoc
          (example_options\<lparr>onCheck := Some collect\<rparr>) []) = None
   \<and> filter (\<lambda>a. status a = FAILED)
        (snd (verify example_Verifier example_env both_MDoc
               (example_options\<lparr>onCheck := Some collect\<rparr>) [])) = []
   \<and> documents both_MDoc = [both_Document]
   \<and> map_option deviceAuth (deviceSigned both_Document)
       = Some \<lparr>deviceSignature = Some example_COSESign1, deviceMac = Some example_COSEMac0\<rparr>"
  by (simp add: example_defs verifier_defs digestCheck_def countryCheck_def jurisdictionCheck_def)

section \<open>The diagnostic report\<close>

lemma getDiagnosticInformation_returns:
  assumes "getDiagnosticInformation V E dr options = Inr r"
    and "documents dr = d # ds"
  shows "\<exists>isd. issuerSigned d = Some isd
           \<and> fst (verify V E dr (options\<lparr>onCheck := Some collect\<rparr>) []) = None
           \<and> r = diagnosticReport E dr d isd
                   (snd (verify V E dr (options\<lparr>onCheck := Some collect\<rparr>) []))"
  using assms
  by (cases "verify V E dr (options\<lparr>onCheck := Some collect\<rparr>) []")
    (auto simp: getDiagnosticInformation_def split: option.splits)

lemma two_MDoc_report:
  "\<exists>r. getDiagnosticInformation example_Verifier example_env two_MDoc example_options = Inr r"
  by (simp add: getDiagnosticInformation_def two_MDoc_def example_defs verifier_defs
      digestCheck_def countryCheck_def jurisdictionCheck_def)

lemma expired_MDoc_report:
  "\<exists>r. getDiagnosticInformation example_Verifier example_env expired_MDoc example_options = Inr r"
  by (simp add: getDiagnosticInformation_def expired_MDoc_def example_defs verifier_defs
      digestCheck_def countryCheck_def jurisdictionCheck_def)

text \<open>
  Claim C9 as amended.  Two responses with the same first document, for which
  \<open>getDiagnosticInformation\<close> returns a report, get the same validityInfo,
  issuerCertificate, issuerSignature alg and digests, deviceKey, deviceSignature alg,
  disclosedAttributes, attributes and deviceAttributes: these are read from the first
  document alone.  The isValid flags and the reasons lists of issuerSignature,
  deviceSignature and dataIntegrity are computed from the assessments that \<open>verify\<close>
  delivers for the whole response, those of the documents after the first included.
\<close>

theorem getDiagnosticInformation_first_document:
  assumes "documents dr = d # ds"
    and "documents dr' = d # ds'"
    and "getDiagnosticInformation V E dr options = Inr r"
    and "getDiagnosticInformation V' E dr' options' = Inr r'"
  shows "report_validityInfo r = report_validityInfo r'
       \<and> report_issuerCertificate r = report_issuerCertificate r'
       \<and> issuerSignature_alg (report_issuerSignature r)
           = issuerSignature_alg (report_issuerSignature r')
       \<and> issuerSignature_digests (report_issuerSignature r)
           = issuerSignature_digests (report_issuerSignature r')
       \<and> report_deviceKey r = report_deviceKey r'
       \<and> map_option deviceSignature_alg (report_deviceSignature r)
           = map_option deviceSignature_alg (report_deviceSignature r')
       \<and> dataIntegrity_disclosedAttributes (report_dataIntegrity r)
           = dataIntegrity_disclosedAttributes (report_dataIntegrity r')
       \<and> report_attributes r = report_attributes r'
       \<and> report_deviceAttributes r = report_deviceAttributes r'
       \<and> issuerSignature_isValid (report_issuerSignature r)
           = list_all (\<lambda>c. status c = PASSED)
               (filter (\<lambda>c. category c = ISSUER_AUTH)
                  (snd (verify V E dr (options\<lparr>onCheck := Some collect\<rparr>) [])))
       \<and> issuerSignature_reasons (report_issuerSignature r)
           = map reasonOrCheck
               (filter (\<lambda>c. category c = ISSUER_AUTH \<and> status c = FAILED)
                  (snd (verify V E dr (options\<lparr>onCheck := Some collect\<rparr>) [])))
       \<and> map_option deviceSignature_isValid (report_deviceSignature r)
           = map_option
               (\<lambda>signed. list_all (\<lambda>c. status c = PASSED)
                  (filter (\<lambda>c. category c = DEVICE_AUTH)
                     (snd (verify V E dr (options\<lparr>onCheck := Some collect\<rparr>) []))))
               (deviceSigned d)
       \<and> map_option deviceSignature_reasons (report_deviceSignature r)
           = map_option
               (\<lambda>signed. map reasonOrCheck
                  (filter (\<lambda>c. category c = DEVICE_AUTH \<and> status c = FAILED)
                     (snd (verify V E dr (options\<lparr>onCheck := Some collect\<rparr>) []))))
               (deviceSigned d)
       \<and> dataIntegrity_isValid (report_dataIntegrity r)
           = list_all (\<lambda>c. status c = PASSED)
               (filter (\<lambda>c. category c = DATA_INTEGRITY)
                  (snd (verify V E dr (options\<lparr>onCheck := Some collect\<rparr>) [])))
       \<and> dataIntegrity_reasons (report_dataIntegrity r)
           = map reasonOrCheck
               (filter (\<lambda>c. category c = DATA_INTEGRITY \<and> status c = FAILED)
                  (snd (verify V E dr (options\<lparr>onCheck := Some collect\<rparr>) [])))"
proof -
  from getDiagnosticInformation_returns [OF assms(3) assms(1)]
  obtain isd where isd: "issuerSigned d = Some isd"
    and r: "r = diagnosticReport E dr d isd
                  (snd (verify V E dr (options\<lparr>onCheck := Some collect\<rparr>) []))"
    by blast
  from getDiagnosticInformation_returns [OF assms(4) assms(2)]
  have r': "r' = diagnosticReport E dr' d isd
                  (snd (verify V' E dr' (options'\<lparr>onCheck := Some collect\<rparr>) []))"
    using isd by auto
  show ?thesis
    unfolding r r'
    by (cases "deviceSigned d") (simp_all add: diagnosticReport_def Let_def)
qed

theorem getDiagnosticInformation_first_document_witness:
  "documents two_MDoc = example_Document # [example_Document]
   \<and> documents expired_MDoc = example_Document # [expired_Document]
   \<and> (\<exists>r r'.
         getDiagnosticInformation example_Verifier example_env two_MDoc example_options = Inr r
       \<and> getDiagnosticInformation example_Verifier example_env expired_MDoc example_options
           = Inr r'
       \<and> report_validityInfo r = report_validityInfo r'
       \<and> report_issuerCertificate r = report_issuerCertificate r'
       \<and> issuerSignature_alg (report_issuerSignature r)
           = issuerSignature_alg (report_issuerSignature r')
       \<and> issuerSignature_digests (report_issuerSignature r)
           = issuerSignature_digests (report_issuerSignature r')
       \<and> report_deviceKey r = report_deviceKey r'
       \<and> map_option deviceSignature_alg (report_deviceSignature r)
           = map_option deviceSignature_alg (report_deviceSignature r')
       \<and> dataIntegrity_disclosedAttributes (report_dataIntegrity r)
           = dataIntegrity_disclosedAttributes (report_dataIntegrity r')
       \<and> report_attributes r = report_attributes r'
       \<and> report_deviceAttributes r = report_deviceAttributes r')"
proof -
  have first: "documents two_MDoc = example_Document # [example_Document]"
    by (simp add: two_MDoc_def example_MDoc_def)
  have second: "documents expired_MDoc = example_Document # [expired_Document]"
    by (simp add: expired_MDoc_def example_MDoc_def)
  obtain r where r:
    "getDiagnosticInformation example_Verifier example_env two_MDoc example_options = Inr r"
    using two_MDoc_report by blast
  obtain r' where r':
    "getDiagnosticInformation example_Verifier example_env expired_MDoc example_options = Inr r'"
    using expired_MDoc_report by blast
  from getDiagnosticInformation_first_document [OF first second r r']
  show ?thesis
    using first second r r' by simp
qed

text \<open>
  Claim C9 as the specification states it does not hold: the two responses below have the
  same first document, and the reasons of the issuerSignature part of their reports differ.
  The second report carries the reason of a FAILED assessment of the second document.
\<close>

theorem getDiagnosticInformation_first_document_counterexample:
  "documents two_MDoc = [example_Document, example_Document]
   \<and> documents expired_MDoc = [example_Document, expired_Document]
   \<and> map_sum id (\<lambda>r. issuerSignature_reasons (report_issuerSignature r))
       (getDiagnosticInformation example_Verifier example_env two_MDoc example_options)
      = Inr []
   \<and> map_sum id (\<lambda>r. issuerSignature_reasons (report_issuerSignature r))
       (getDiagnosticInformation example_Verifier example_env expired_MDoc example_options)
      = Inr [''The MSO must be valid at the time of verification (date)'']"
  by (simp add: getDiagnosticInformation_def diagnosticReport_def reasonOrCheck_def
      two_MDoc_def expired_MDoc_def example_defs verifier_defs
      digestCheck_def countryCheck_def jurisdictionCheck_def)

section \<open>Country coupling\<close>

lemma filter_verifications:
  "filter (\<lambda>(ev, n, ok). n = ns \<and> P ev) (map (\<lambda>ev. (ev, ns, v ev)) items)
     = map (\<lambda>ev. (ev, ns, v ev)) (filter P items)"
  by (induction items) simp_all

lemma find_verifications:
  "find (\<lambda>(ev, n, ok). Q ev ok) (map (\<lambda>ev. (ev, ns, v ev)) items)
     = map_option (\<lambda>ev. (ev, ns, v ev)) (find (\<lambda>ev. Q ev (v ev)) items)"
  by (induction items) simp_all

lemma emitted_append_Emits:
  "emitted (map (\<lambda>x. Emit (f x)) xs @ map (\<lambda>x. Emit (g x)) ys @ rest)
     = map f xs @ map g ys @ emitted rest"
  by (simp add: emitted_map_Emit)

text \<open>
  \<open>invalidCountry\<close> is the first \<open>issuing_country\<close> element of the namespace with an
  invalid digest or a value that does not match the certificate.
\<close>

lemma invalidCountry_items:
  "invalidCountry ia ns (map (\<lambda>ev. (ev, ns, isValid E ev ns ia)) items)
     = map_option (\<lambda>ev. (ev, ns, isValid E ev ns ia))
         (find (\<lambda>ev. \<not> isValid E ev ns ia \<or> \<not> matchCertificate ev ns ia)
            (filter (\<lambda>ev. elementIdentifier ev = ''issuing_country'') items))"
  unfolding invalidCountry_def filter_verifications
  using find_verifications
    [of "\<lambda>ev ok. \<not> ok \<or> \<not> matchCertificate ev ns ia" ns "\<lambda>ev. isValid E ev ns ia"
        "filter (\<lambda>ev. elementIdentifier ev = ''issuing_country'') items"]
  by simp

lemma matchCertificate_country:
  assumes "IssuerAuth_countryName ia = Some C"
    and "elementIdentifier ev = ''issuing_country''"
  shows "matchCertificate ev ''org.iso.18013.5.1'' ia \<longleftrightarrow> elementValue ev = Text C"
  by (simp add: matchCertificate_def MDL_NAMESPACE_def assms)

lemma invalidCountry_first:
  assumes "IssuerAuth_countryName ia = Some C"
  shows "invalidCountry ia ''org.iso.18013.5.1''
           (map (\<lambda>ev. (ev, ''org.iso.18013.5.1'', isValid E ev ''org.iso.18013.5.1'' ia)) items)
     = map_option (\<lambda>ev. (ev, ''org.iso.18013.5.1'', isValid E ev ''org.iso.18013.5.1'' ia))
         (find (\<lambda>ev. \<not> isValid E ev ''org.iso.18013.5.1'' ia \<or> elementValue ev \<noteq> Text C)
            (filter (\<lambda>ev. elementIdentifier ev = ''issuing_country'') items))"
proof -
  have "find (\<lambda>ev. \<not> isValid E ev ''org.iso.18013.5.1'' ia
                   \<or> \<not> matchCertificate ev ''org.iso.18013.5.1'' ia)
          (filter (\<lambda>ev. elementIdentifier ev = ''issuing_country'') items)
      = find (\<lambda>ev. \<not> isValid E ev ''org.iso.18013.5.1'' ia \<or> elementValue ev \<noteq> Text C)
          (filter (\<lambda>ev. elementIdentifier ev = ''issuing_country'') items)"
    by (rule find_cong) (simp_all add: matchCertificate_country [OF assms])
  then show ?thesis
    unfolding invalidCountry_items by simp
qed

lemma filter_country_digestChecks:
  "filter (\<lambda>a. check a = countryCheck)
     (map (categorize cat)
        (map (\<lambda>(ev, n, ok). \<lparr>status = s, check = digestCheck ns (elementIdentifier ev),
                               reason = None\<rparr>) xs)) = []"
  by (simp add: filter_empty_conv categorize_def digestCheck_def countryCheck_def split_def)

lemma jurisdiction_not_country: "jurisdictionCheck \<noteq> countryCheck"
  by (simp add: jurisdictionCheck_def countryCheck_def)

text \<open>
  The checks of one namespace against the certificate: outside the mDL namespace there
  is none; in it, the check on the country is delivered once.
\<close>

lemma namespace_country_checks:
  assumes "certificate ia = Some c" and "truthy (issuerName c)" and "countryName c = Some C"
  shows "filter (\<lambda>a. check a = countryCheck)
           (map (categorize DATA_INTEGRITY) (emitted (verifyData_namespace E ia ns items)))
     = (if ns = ''org.iso.18013.5.1''
        then [case find (\<lambda>ev. \<not> isValid E ev ''org.iso.18013.5.1'' ia \<or> elementValue ev \<noteq> Text C)
                     (filter (\<lambda>ev. elementIdentifier ev = ''issuing_country'') items) of
                None \<Rightarrow>
                  \<lparr>status = PASSED, check = countryCheck, reason = None,
                   category = DATA_INTEGRITY\<rparr>
              | Some ev \<Rightarrow>
                  \<lparr>status = FAILED, check = countryCheck,
                   reason = Some (countryReason (toString (elementValue ev)) C),
                   category = DATA_INTEGRITY\<rparr>]
        else [])"
proof -
  let ?vs = "map (\<lambda>ev. (ev, ns, isValid E ev ns ia)) items"
  have name: "IssuerAuth_countryName ia = Some C"
    by (simp add: IssuerAuth_countryName_def assms)
  have split: "emitted (verifyData_namespace E ia ns items)
      = map (\<lambda>(ev, n, ok). \<lparr>status = PASSED, check = digestCheck ns (elementIdentifier ev),
                              reason = None\<rparr>) (filter (\<lambda>(ev, n, ok). ok) ?vs)
        @ map (\<lambda>(ev, n, ok). \<lparr>status = FAILED, check = digestCheck ns (elementIdentifier ev),
                                reason = None\<rparr>) (filter (\<lambda>(ev, n, ok). \<not> ok) ?vs)
        @ emitted (if ns = MDL_NAMESPACE then certificateChecks ia ns ?vs else [])"
    unfolding verifyData_namespace_def Let_def
    using emitted_append_Emits
      [of "\<lambda>(ev, n, ok). \<lparr>status = PASSED, check = digestCheck ns (elementIdentifier ev),
                              reason = None\<rparr>" "filter (\<lambda>(ev, n, ok). ok) ?vs"
          "\<lambda>(ev, n, ok). \<lparr>status = FAILED, check = digestCheck ns (elementIdentifier ev),
                              reason = None\<rparr>" "filter (\<lambda>(ev, n, ok). \<not> ok) ?vs"]
    by (simp add: split_def)
  have digests: "filter (\<lambda>a. check a = countryCheck)
           (map (categorize DATA_INTEGRITY) (emitted (verifyData_namespace E ia ns items)))
     = filter (\<lambda>a. check a = countryCheck)
         (map (categorize DATA_INTEGRITY)
            (emitted (if ns = MDL_NAMESPACE then certificateChecks ia ns ?vs else [])))"
    unfolding split
    by (simp only: map_append filter_append filter_country_digestChecks append_Nil)
  show ?thesis
  proof (cases "ns = ''org.iso.18013.5.1''")
    case False
    then show ?thesis
      unfolding digests by (simp add: MDL_NAMESPACE_def)
  next
    case True
    show ?thesis
      unfolding digests
      by (cases "find (\<lambda>ev. \<not> isValid E ev ''org.iso.18013.5.1'' ia \<or> elementValue ev \<noteq> Text C)
                     (filter (\<lambda>ev. elementIdentifier ev = ''issuing_country'') items)")
        (simp_all add: True MDL_NAMESPACE_def certificateChecks_def assms name
          invalidCountry_first [OF name] categorize_def interpolate_def
          jurisdiction_not_country)
  qed
qed

lemma concat_namespaces:
  "concat (map (\<lambda>(ns, items). if ns = key then [f items] else []) nss)
     = map (\<lambda>(ns, items). f items) (filter (\<lambda>(ns, items). ns = key) nss)"
  by (induction nss) auto

lemma filter_country_namespaceChecks:
  "filter (\<lambda>a. check a = countryCheck)
     (map (\<lambda>(ns, items). categorize DATA_INTEGRITY (namespaceCheck mso ns)) nss) = []"
  by (simp add: filter_empty_conv categorize_def namespaceCheck_def countryCheck_def split_def)

lemma filter_country_digestAlgorithmCheck:
  "filter (\<lambda>a. check a = countryCheck) [categorize cat (digestAlgorithmCheck mso)] = []"
  by (simp add: categorize_def digestAlgorithmCheck_def countryCheck_def)

lemma filter_concat_namespaces:
  "filter P (concat (map (\<lambda>(ns, items). f ns items) nss))
     = concat (map (\<lambda>(ns, items). filter P (f ns items)) nss)"
  by (induction nss) auto

text \<open>
  Claim C7 as amended.  The issuer certificate names the country \<open>C\<close>.  For the mDL
  namespace (a key that the \<open>nameSpaces\<close> object has at most once), the callback
  receives one assessment of the check on \<open>issuing_country\<close>, of the category
  DATA_INTEGRITY.  It is FAILED when an \<open>issuing_country\<close> element of the namespace has an
  invalid digest or a value other than the text \<open>C\<close>, and its reason pairs the value of the
  first such element with \<open>C\<close>; it is PASSED, without a reason, when every
  \<open>issuing_country\<close> element has the value \<open>C\<close> and a valid digest.
\<close>

theorem verifyData_issuing_country:
  assumes "issuerSigned mdoc = Some isd"
    and "certificate (issuerAuth isd) = Some c"
    and "truthy (issuerName c)"
    and "countryName c = Some C"
  shows "filter (\<lambda>a. check a = ''The 'issuing_country' if present must match the 'countryName' in the subject field within the DS certificate'')
           (snd (verifyData E mdoc (buildCallback (Some collect)) []))
     = map (\<lambda>(ns, items).
              case find (\<lambda>ev. \<not> isValid E ev ''org.iso.18013.5.1'' (issuerAuth isd)
                              \<or> elementValue ev \<noteq> Text C)
                     (filter (\<lambda>ev. elementIdentifier ev = ''issuing_country'') items) of
                None \<Rightarrow>
                  \<lparr>status = PASSED,
                   check = ''The 'issuing_country' if present must match the 'countryName' in the subject field within the DS certificate'',
                   reason = None,
                   category = DATA_INTEGRITY\<rparr>
              | Some ev \<Rightarrow>
                  \<lparr>status = FAILED,
                   check = ''The 'issuing_country' if present must match the 'countryName' in the subject field within the DS certificate'',
                   reason = Some (''The 'issuing_country' (''
                     @ (case elementValue ev of Text v \<Rightarrow> v | NonText v \<Rightarrow> v)
                     @ '') must match the 'countryName' ('' @ C
                     @ '') in the subject field within the issuer certificate''),
                   category = DATA_INTEGRITY\<rparr>)
         (filter (\<lambda>(ns, items). ns = ''org.iso.18013.5.1'') (IssuerSigned.nameSpaces isd))"
proof -
  let ?A = "\<lambda>items.
              case find (\<lambda>ev. \<not> isValid E ev ''org.iso.18013.5.1'' (issuerAuth isd)
                              \<or> elementValue ev \<noteq> Text C)
                     (filter (\<lambda>ev. elementIdentifier ev = ''issuing_country'') items) of
                None \<Rightarrow>
                  \<lparr>status = PASSED, check = countryCheck, reason = None,
                   category = DATA_INTEGRITY\<rparr>
              | Some ev \<Rightarrow>
                  \<lparr>status = FAILED, check = countryCheck,
                   reason = Some (countryReason (toString (elementValue ev)) C),
                   category = DATA_INTEGRITY\<rparr>"
  have one: "(\<lambda>(ns, items). filter (\<lambda>a. check a = countryCheck)
                 (map (categorize DATA_INTEGRITY)
                    (emitted (verifyData_namespace E (issuerAuth isd) ns items))))
      = (\<lambda>(ns, items). if ns = ''org.iso.18013.5.1'' then [?A items] else [])"
    by (rule ext) (simp add: split_def namespace_country_checks [OF assms(2,3,4)])
  have "filter (\<lambda>a. check a = countryCheck)
           (snd (verifyData E mdoc (buildCallback (Some collect)) []))
      = concat (map (\<lambda>(ns, items). filter (\<lambda>a. check a = countryCheck)
                 (map (categorize DATA_INTEGRITY)
                    (emitted (verifyData_namespace E (issuerAuth isd) ns items))))
          (IssuerSigned.nameSpaces isd))"
    unfolding verifyData_collect [OF assms(1)]
    by (simp only: snd_conv append_Nil filter_append filter_country_namespaceChecks
          filter_country_digestAlgorithmCheck filter_concat_namespaces)
  also have "\<dots> = map (\<lambda>(ns, items). ?A items)
                     (filter (\<lambda>(ns, items). ns = ''org.iso.18013.5.1'')
                        (IssuerSigned.nameSpaces isd))"
    unfolding one by (rule concat_namespaces)
  finally show ?thesis
    unfolding countryCheck_def countryReason_def toString_def .
qed

theorem verifyData_issuing_country_witness:
  "filter (\<lambda>a. check a = ''The 'issuing_country' if present must match the 'countryName' in the subject field within the DS certificate'')
     (snd (verifyData example_env mismatch_Document (buildCallback (Some collect)) []))
     = [\<lparr>status = FAILED,
         check = ''The 'issuing_country' if present must match the 'countryName' in the subject field within the DS certificate'',
         reason = Some ''The 'issuing_country' (DE) must match the 'countryName' (US) in the subject field within the issuer certificate'',
         category = DATA_INTEGRITY\<rparr>]
   \<and> filter (\<lambda>a. check a = ''The 'issuing_country' if present must match the 'countryName' in the subject field within the DS certificate'')
       (snd (verifyData example_env example_Document (buildCallback (Some collect)) []))
     = [\<lparr>status = PASSED,
         check = ''The 'issuing_country' if present must match the 'countryName' in the subject field within the DS certificate'',
         reason = None,
         category = DATA_INTEGRITY\<rparr>]"
proof -
  have m1: "issuerSigned mismatch_Document = Some mismatch_IssuerSigned"
    by (simp add: mismatch_Document_def)
  have m2: "certificate (issuerAuth mismatch_IssuerSigned) = Some example_certificate"
    by (simp add: mismatch_IssuerSigned_def example_IssuerAuth_def certificate_def)
  have e1: "issuerSigned example_Document = Some example_IssuerSigned"
    by (simp add: example_Document_def)
  have e2: "certificate (issuerAuth example_IssuerSigned) = Some example_certificate"
    by (simp add: example_IssuerSigned_def example_IssuerAuth_def certificate_def)
  have c3: "truthy (issuerName example_certificate)"
    by (simp add: example_certificate_def truthy_def)
  have c4: "countryName example_certificate = Some ''US''"
    by (simp add: example_certificate_def)
  show ?thesis
    unfolding verifyData_issuing_country [OF m1 m2 c3 c4, of example_env]
      verifyData_issuing_country [OF e1 e2 c3 c4, of example_env]
    by (simp add: mismatch_IssuerSigned_def mismatch_MSO_def item_issuing_country_DE_def
        item_age_changed_def example_IssuerSigned_def example_IssuerAuth_def example_MSO_def
        item_issuing_country_def item_age_over_21_def example_env_def isValid_def)
qed

text \<open>
  Claim C7 as the specification states it does not hold.  The namespace below discloses
  three \<open>issuing_country\<close> elements with valid digests, US, FR and DE, under a certificate
  of the country US.  \<open>verifyData\<close> delivers one assessment of the check on the country:
  it is FAILED although the first element equals the country of the certificate, and its
  reason pairs FR, not DE, with US.
\<close>

theorem verifyData_issuing_country_counterexample:
  "IssuerSigned.nameSpaces several_IssuerSigned
     = [(''org.iso.18013.5.1'', [item_issuing_country, item_country_FR, item_country_DE])]
   \<and> map (\<lambda>ev. (elementIdentifier ev, elementValue ev,
                 isValid example_env ev ''org.iso.18013.5.1'' (issuerAuth several_IssuerSigned)))
       [item_issuing_country, item_country_FR, item_country_DE]
     = [(''issuing_country'', Text ''US'', True), (''issuing_country'', Text ''FR'', True),
        (''issuing_country'', Text ''DE'', True)]
   \<and> map_option countryName (certificate (issuerAuth several_IssuerSigned)) = Some (Some ''US'')
   \<and> verifyData example_env several_Document (buildCallback (Some collect)) []
     = (None,
        [\<lparr>status = PASSED,
          check = ''Issuer Auth must include a supported digestAlgorithm element'',
          reason = None, category = DATA_INTEGRITY\<rparr>,
         \<lparr>status = PASSED,
          check = ''Issuer Auth must include digests for namespace: org.iso.18013.5.1'',
          reason = None, category = DATA_INTEGRITY\<rparr>,
         \<lparr>status = PASSED,
          check = ''The calculated digest for org.iso.18013.5.1/issuing_country attribute must match the digest in the issuerAuth element'',
          reason = None, category = DATA_INTEGRITY\<rparr>,
         \<lparr>status = PASSED,
          check = ''The calculated digest for org.iso.18013.5.1/issuing_country attribute must match the digest in the issuerAuth element'',
          reason = None, category = DATA_INTEGRITY\<rparr>,
         \<lparr>status = PASSED,
          check = ''The calculated digest for org.iso.18013.5.1/issuing_country attribute must match the digest in the issuerAuth element'',
          reason = None, category = DATA_INTEGRITY\<rparr>,
         \<lparr>status = FAILED,
          check = ''The 'issuing_country' if present must match the 'countryName' in the subject field within the DS certificate'',
          reason = Some ''The 'issuing_country' (FR) must match the 'countryName' (US) in the subject field within the issuer certificate'',
          category = DATA_INTEGRITY\<rparr>,
         \<lparr>status = PASSED,
          check = ''The 'issuing_jurisdiction' if present must match the 'stateOrProvinceName' in the subject field within the DS certificate'',
          reason = None, category = DATA_INTEGRITY\<rparr>])"
  by (simp add: several_Document_def several_IssuerSigned_def item_country_FR_def
      item_country_DE_def example_defs verifier_defs digestCheck_def countryCheck_def
      jurisdictionCheck_def countryReason_def toString_def interpolate_def)

section \<open>The default callback and the assessments delivered inside try\<close>

text \<open>
  \<open>defaultCallback\<close> throws for a FAILED assessment only, an MDLError with the reason of
  the assessment or, without a reason, its check; the callback that \<open>buildCallback\<close>
  makes of a caller's \<open>onCheck\<close> hands every assessment to it.
\<close>

lemma defaultCallback_throws:
  "defaultCallback a st
     = (if status a = FAILED then Some (MDLError (reasonOrCheck a)) else None, st)"
  by (simp add: defaultCallback_def reasonOrCheck_def)

lemma buildCallback_own:
  "buildCallback (Some cb) a st = cb a defaultCallback st"
  by (simp add: buildCallback_def)

text \<open>
  An assessment delivered outside \<open>try\<close> that is FAILED ends the method with that
  MDLError; one delivered as the last statement of a \<open>try\<close> block ends it with the
  MDLError of the assessment of the \<open>catch\<close> block, when that one is FAILED too.
\<close>

lemma deliver_default_Emit:
  assumes "status a = FAILED"
  shows "deliver (onCatCheck (withOriginal (buildCallback None)) cat) (Emit a # es) st
     = (Some (MDLError (reasonOrCheck (categorize cat a))), st)"
  using assms
  by (simp add: onCatCheck_def withOriginal_def buildCallback_def defaultCallback_def
      reasonOrCheck_def categorize_def)

lemma deliver_default_Attempt:
  assumes "status a = FAILED"
    and "status (handler (reasonOrCheck (categorize cat a))) = FAILED"
  shows "deliver (onCatCheck (withOriginal (buildCallback None)) cat) (Attempt a handler # es) st
     = (Some (MDLError (reasonOrCheck
                 (categorize cat (handler (reasonOrCheck (categorize cat a)))))), st)"
  using assms
  by (simp add: onCatCheck_def withOriginal_def buildCallback_def defaultCallback_def
      reasonOrCheck_def categorize_def)

text \<open>
  Claim C4 at a response whose device signature does not verify, and at one whose device
  MAC does not verify.  A collecting callback receives one FAILED assessment, the check
  "Device signature must be valid" (or "Device MAC must be valid") without a reason.
  Without an \<open>onCheck\<close> option the MDLError that \<open>defaultCallback\<close> throws for it is caught
  by the \<open>catch\<close> block around the call, which delivers a second FAILED assessment:
  \<open>verify\<close> throws the MDLError of that one, whose message is neither the reason nor the
  check of the first FAILED assessment.
\<close>

theorem default_onCheck_caught_assessment:
  "filter (\<lambda>a. status a = FAILED)
     (snd (verify example_Verifier rejecting_env example_MDoc
             (example_options\<lparr>onCheck := Some collect\<rparr>) []))
     = [\<lparr>status = FAILED, check = ''Device signature must be valid'', reason = None,
         category = DEVICE_AUTH\<rparr>]
   \<and> verify example_Verifier rejecting_env example_MDoc
       (example_options\<lparr>onCheck := None\<rparr>) ([] :: VerificationAssessment list)
     = (Some (MDLError ''Unable to verify deviceAuth signature (ECDSA/EdDSA): Device signature must be valid''), [])
   \<and> filter (\<lambda>a. status a = FAILED)
       (snd (verify example_Verifier rejecting_env mac_MDoc
               (example_options\<lparr>ephemeralReaderKey := Some [5], onCheck := Some collect\<rparr>) []))
     = [\<lparr>status = FAILED, check = ''Device MAC must be valid'', reason = None,
         category = DEVICE_AUTH\<rparr>]
   \<and> verify example_Verifier rejecting_env mac_MDoc
       (example_options\<lparr>ephemeralReaderKey := Some [5], onCheck := None\<rparr>)
       ([] :: VerificationAssessment list)
     = (Some (MDLError ''Unable to verify deviceAuth MAC: Device MAC must be valid''), [])"
  by (simp add: rejecting_env_def example_defs verifier_defs digestCheck_def countryCheck_def
      jurisdictionCheck_def)

end
